theory Spec2Isabelle
  imports Main "HOL-Library.Word" "HOL-Library.Sublist" "HOL-Library.Multiset"
begin

section \<open>JavaScript strings and JSON values\<close>

text \<open>
  A JavaScript string is a sequence of UTF-16 code units, and \<open>length\<close> counts code
  units. String literals of the source are written \<open>js ''...''\<close>.
\<close>

type_synonym code_unit = "16 word"
type_synonym jsstring = "code_unit list"

definition js :: "string \<Rightarrow> jsstring" where
  "js s = map of_char s"

text \<open>
  \<open>String.prototype.trim\<close> removes the ECMAScript WhiteSpace and LineTerminator code
  points from both ends.
\<close>

definition isWhiteSpace :: "code_unit \<Rightarrow> bool" where
  "isWhiteSpace c =
     (c = 0x9 \<or> c = 0xA \<or> c = 0xB \<or> c = 0xC \<or> c = 0xD \<or> c = 0x20 \<or> c = 0xA0
      \<or> c = 0x1680 \<or> (0x2000 \<le> c \<and> c \<le> 0x200A) \<or> c = 0x2028 \<or> c = 0x2029
      \<or> c = 0x202F \<or> c = 0x205F \<or> c = 0x3000 \<or> c = 0xFEFF)"

definition trim :: "jsstring \<Rightarrow> jsstring" where
  "trim s = rev (dropWhile isWhiteSpace (rev (dropWhile isWhiteSpace s)))"

text \<open>\<open>haystack.includes(needle)\<close>: the needle occurs as a contiguous substring.\<close>

fun includes_js :: "jsstring \<Rightarrow> jsstring \<Rightarrow> bool" where
  "includes_js [] needle = (needle = [])"
| "includes_js (c # cs) needle = (prefix needle (c # cs) \<or> includes_js cs needle)"

text \<open>
  A code unit in \<open>D800..DBFF\<close> followed by one in \<open>DC00..DFFF\<close> is a surrogate pair; any
  other code unit in \<open>D800..DFFF\<close> is an unpaired surrogate. \<open>toWellFormed\<close> replaces
  every unpaired surrogate by \<open>U+FFFD\<close>, which is what becomes of a string that is
  encoded as UTF-8 and decoded again.
\<close>

definition isHighSurrogate :: "code_unit \<Rightarrow> bool" where
  "isHighSurrogate c = (0xD800 \<le> c \<and> c \<le> 0xDBFF)"

definition isLowSurrogate :: "code_unit \<Rightarrow> bool" where
  "isLowSurrogate c = (0xDC00 \<le> c \<and> c \<le> 0xDFFF)"

fun toWellFormed :: "jsstring \<Rightarrow> jsstring" where
  "toWellFormed [] = []"
| "toWellFormed [c] = (if isHighSurrogate c \<or> isLowSurrogate c then [0xFFFD] else [c])"
| "toWellFormed (c # d # cs) =
     (if isHighSurrogate c \<and> isLowSurrogate d then c # d # toWellFormed cs
      else if isHighSurrogate c \<or> isLowSurrogate c then 0xFFFD # toWellFormed (d # cs)
      else c # toWellFormed (d # cs))"

fun isWellFormed :: "jsstring \<Rightarrow> bool" where
  "isWellFormed [] = True"
| "isWellFormed [c] = (\<not> isHighSurrogate c \<and> \<not> isLowSurrogate c)"
| "isWellFormed (c # d # cs) =
     (if isHighSurrogate c then isLowSurrogate d \<and> isWellFormed cs
      else \<not> isLowSurrogate c \<and> isWellFormed (d # cs))"

text \<open>
  The values a parsed JSON body can hold; the value of a number is never inspected.
  A property that is absent from an object (JavaScript \<open>undefined\<close>) is \<open>None\<close>
  at the lookup.
\<close>

datatype jsval =
    JNull
  | JBool bool
  | JNum int
  | JStr jsstring
  | JArr "jsval list"
  | JObj "(jsstring \<times> jsval) list"

definition getProp :: "jsval \<Rightarrow> jsstring \<Rightarrow> jsval option" where
  "getProp v k = (case v of JObj props \<Rightarrow> map_of props k | _ \<Rightarrow> None)"

section \<open>validation.ts\<close>

text \<open>
  The schemas are built with the zod library. A string schema checks the type and then
  runs its checks in the order in which they were chained; every failed check adds an
  issue, and \<open>trim\<close> replaces the value seen by the checks after it.
\<close>

datatype string_check =
    MinLength nat jsstring
  | MaxLength nat jsstring
  | Trim
  | Refine "jsstring \<Rightarrow> bool" jsstring
  | Uuid jsstring

fun typeName :: "jsval option \<Rightarrow> string" where
  "typeName None = ''undefined''"
| "typeName (Some JNull) = ''null''"
| "typeName (Some (JBool b)) = ''boolean''"
| "typeName (Some (JNum n)) = ''number''"
| "typeName (Some (JStr s)) = ''string''"
| "typeName (Some (JArr xs)) = ''array''"
| "typeName (Some (JObj fs)) = ''object''"

definition invalidTypeMessage :: "string \<Rightarrow> jsval option \<Rightarrow> jsstring" where
  "invalidTypeMessage expected input =
     js (''Invalid input: expected '' @ expected @ '', received '' @ typeName input)"

definition isHexDigit :: "code_unit \<Rightarrow> bool" where
  "isHexDigit c = ((0x30 \<le> c \<and> c \<le> 0x39) \<or> (0x61 \<le> c \<and> c \<le> 0x66) \<or> (0x41 \<le> c \<and> c \<le> 0x46))"

definition isVersionDigit :: "code_unit \<Rightarrow> bool" where
  "isVersionDigit c = (0x31 \<le> c \<and> c \<le> 0x38)"

definition isVariantDigit :: "code_unit \<Rightarrow> bool" where
  "isVariantDigit c = (c = 0x38 \<or> c = 0x39 \<or> c = 0x61 \<or> c = 0x62 \<or> c = 0x41 \<or> c = 0x42)"

text \<open>
  The pattern of zod's \<open>uuid\<close> format:
  \<^verbatim>\<open>^([0-9a-fA-F]{8}-[0-9a-fA-F]{4}-[1-8][0-9a-fA-F]{3}-[89abAB][0-9a-fA-F]{3}-[0-9a-fA-F]{12}\<close>
  \<^verbatim>\<open>|00000000-0000-0000-0000-000000000000|ffffffff-ffff-ffff-ffff-ffffffffffff)$\<close>
\<close>

definition uuidRegex :: "jsstring \<Rightarrow> bool" where
  "uuidRegex s =
     ((length s = 36
        \<and> list_all isHexDigit (take 8 s) \<and> s ! 8 = 0x2D
        \<and> list_all isHexDigit (take 4 (drop 9 s)) \<and> s ! 13 = 0x2D
        \<and> isVersionDigit (s ! 14) \<and> list_all isHexDigit (take 3 (drop 15 s)) \<and> s ! 18 = 0x2D
        \<and> isVariantDigit (s ! 19) \<and> list_all isHexDigit (take 3 (drop 20 s)) \<and> s ! 23 = 0x2D
        \<and> list_all isHexDigit (drop 24 s))
      \<or> s = js ''00000000-0000-0000-0000-000000000000''
      \<or> s = js ''ffffffff-ffff-ffff-ffff-ffffffffffff'')"

fun runCheck :: "jsstring \<times> jsstring list \<Rightarrow> string_check \<Rightarrow> jsstring \<times> jsstring list" where
  "runCheck (v, issues) (MinLength n msg) = (v, if length v < n then issues @ [msg] else issues)"
| "runCheck (v, issues) (MaxLength n msg) = (v, if length v > n then issues @ [msg] else issues)"
| "runCheck (v, issues) Trim = (trim v, issues)"
| "runCheck (v, issues) (Refine p msg) = (v, if p v then issues else issues @ [msg])"
| "runCheck (v, issues) (Uuid msg) = (v, if uuidRegex v then issues else issues @ [msg])"

text \<open>
  \<open>z.string(typeMessage).check1.check2...\<close> applied to a property: the issues found
  (\<open>Inl\<close>), or the value that comes out of the checks (\<open>Inr\<close>).
\<close>

definition zString :: "jsstring \<Rightarrow> string_check list \<Rightarrow> jsval option \<Rightarrow> jsstring list + jsstring" where
  "zString typeMessage checks input =
     (case input of
        Some (JStr s) \<Rightarrow>
          (case foldl runCheck (s, []) checks of
             (v, []) \<Rightarrow> Inr v
           | (v, i # issues) \<Rightarrow> Inl (i # issues))
      | _ \<Rightarrow> Inl [typeMessage])"

definition zOptional :: "(jsval option \<Rightarrow> jsstring list + 'a) \<Rightarrow> jsval option \<Rightarrow> jsstring list + 'a option" where
  "zOptional schema input =
     (case input of
        None \<Rightarrow> Inr None
      | Some v \<Rightarrow> (case schema (Some v) of Inl issues \<Rightarrow> Inl issues | Inr d \<Rightarrow> Inr (Some d)))"

definition issuesOf :: "jsstring list + 'a \<Rightarrow> jsstring list" where
  "issuesOf r = (case r of Inl issues \<Rightarrow> issues | Inr d \<Rightarrow> [])"

record chat_message_request =
  message :: jsstring
  sessionId :: "jsstring option"

definition messageSchema :: "jsval option \<Rightarrow> jsstring list + jsstring" where
  "messageSchema =
     zString (js ''Message must be a string'')
       [MinLength 1 (js ''Message cannot be empty''),
        MaxLength 2000 (js ''Message is too long. Please keep it under 2000 characters.''),
        Trim,
        Refine (\<lambda>msg. length msg > 0) (js ''Message cannot be empty after trimming whitespace'')]"

definition optionalSessionIdSchema :: "jsval option \<Rightarrow> jsstring list + jsstring option" where
  "optionalSessionIdSchema input =
     zOptional (\<lambda>v. zString (invalidTypeMessage ''string'' v) [Uuid (js ''Invalid session ID format'')] v) input"

text \<open>
  An object schema parses its properties in the order of the shape and collects their
  issues in that order; a body that is not an object is one issue.
\<close>

definition ChatMessageRequestSchema :: "jsval option \<Rightarrow> jsstring list + chat_message_request" where
  "ChatMessageRequestSchema body =
     (case body of
        Some (JObj props) \<Rightarrow>
          (let m = messageSchema (getProp (JObj props) (js ''message''));
               s = optionalSessionIdSchema (getProp (JObj props) (js ''sessionId''))
           in case (m, s) of
                (Inr msg, Inr sid) \<Rightarrow> Inr \<lparr>message = msg, sessionId = sid\<rparr>
              | _ \<Rightarrow> Inl (issuesOf m @ issuesOf s))
      | _ \<Rightarrow> Inl [invalidTypeMessage ''object'' body])"

definition SessionIdParamSchema :: "jsval option \<Rightarrow> jsstring list + jsstring" where
  "SessionIdParamSchema data =
     (case data of
        Some (JObj props) \<Rightarrow>
          zString (js ''Session ID must be a string'') [Uuid (js ''Invalid session ID format'')]
            (getProp (JObj props) (js ''sessionId''))
      | _ \<Rightarrow> Inl [invalidTypeMessage ''object'' data])"

datatype 'a validation = Success (data: 'a) | Failure (error: jsstring)

text \<open>
  \<open>validateRequest\<close>: the parsed data, or the message of the first issue
  (\<open>firstError?.message || 'Validation error'\<close>; an empty string is falsy).
\<close>

definition validateRequest :: "(jsval option \<Rightarrow> jsstring list + 'a) \<Rightarrow> jsval option \<Rightarrow> 'a validation" where
  "validateRequest schema d =
     (case schema d of
        Inr parsed \<Rightarrow> Success parsed
      | Inl [] \<Rightarrow> Failure (js ''Validation error'')
      | Inl (firstError # rest) \<Rightarrow>
          Failure (if firstError = [] then js ''Validation error'' else firstError))"

section \<open>database.ts\<close>

datatype sender = User | Ai

record conversation =
  conv_id :: jsstring
  createdAt :: int

record message =
  msg_id :: jsstring
  conversationId :: jsstring
  sender :: sender
  msg_text :: jsstring
  timestamp :: int

text \<open>
  The two tables, each as the list of its rows in insertion order (the order of the
  rowids), and the \<open>foreign_keys\<close> setting of the connection, which decides whether
  the engine enforces the \<open>FOREIGN KEY\<close> clause of the \<open>messages\<close> table.

  The \<open>TEXT\<close> columns hold UTF-8. A JavaScript string that is bound to a statement,
  as a value to insert or as the parameter of a \<open>WHERE\<close> clause, is encoded on the way
  in, and a row that is read comes back decoded: the database sees and gives back
  \<open>toWellFormed\<close> of the string. The object that an insert returns is built from the
  arguments of the call, not read from the table.
\<close>

record database =
  conversations :: "conversation list"
  messages :: "message list"
  foreign_keys :: bool

datatype sqlite_error = UniqueConstraintFailed string | ForeignKeyConstraintFailed

fun sqliteErrorMessage :: "sqlite_error \<Rightarrow> jsstring" where
  "sqliteErrorMessage (UniqueConstraintFailed column) = js (''UNIQUE constraint failed: '' @ column)"
| "sqliteErrorMessage ForeignKeyConstraintFailed = js ''FOREIGN KEY constraint failed''"

text \<open>\<open>INSERT INTO conversations (id, createdAt) VALUES (?, ?)\<close>, with \<open>id\<close> the primary key.\<close>

definition createConversation :: "database \<Rightarrow> jsstring \<Rightarrow> int \<Rightarrow> sqlite_error + conversation \<times> database" where
  "createConversation db i now =
     (if toWellFormed i \<in> set (map conv_id (conversations db))
      then Inl (UniqueConstraintFailed ''conversations.id'')
      else let row = \<lparr>conv_id = toWellFormed i, createdAt = now\<rparr>
           in Inr (\<lparr>conv_id = i, createdAt = now\<rparr>,
                   db\<lparr>conversations := conversations db @ [row]\<rparr>))"

definition getConversation :: "database \<Rightarrow> jsstring \<Rightarrow> conversation option" where
  "getConversation db i = find (\<lambda>c. conv_id c = toWellFormed i) (conversations db)"

text \<open>
  \<open>INSERT INTO messages (id, conversationId, sender, text, timestamp) VALUES (?, ?, ?, ?, ?)\<close>,
  with \<open>id\<close> the primary key and \<open>conversationId\<close> referencing \<open>conversations(id)\<close>.
\<close>

definition createMessage ::
  "database \<Rightarrow> jsstring \<Rightarrow> jsstring \<Rightarrow> sender \<Rightarrow> jsstring \<Rightarrow> int \<Rightarrow> sqlite_error + message \<times> database" where
  "createMessage db i cid sndr txt now =
     (if toWellFormed i \<in> set (map msg_id (messages db))
      then Inl (UniqueConstraintFailed ''messages.id'')
      else if foreign_keys db \<and> toWellFormed cid \<notin> set (map conv_id (conversations db))
      then Inl ForeignKeyConstraintFailed
      else let row = \<lparr>msg_id = toWellFormed i, conversationId = toWellFormed cid, sender = sndr,
                      msg_text = toWellFormed txt, timestamp = now\<rparr>
           in Inr (\<lparr>msg_id = i, conversationId = cid, sender = sndr, msg_text = txt, timestamp = now\<rparr>,
                   db\<lparr>messages := messages db @ [row]\<rparr>))"

text \<open>
  Both queries are answered from the index on \<open>(conversationId, timestamp)\<close> that
  \<open>initialize\<close> creates; rows with the same timestamp follow each other there by rowid.
  \<open>ORDER BY timestamp ASC\<close> walks the index forwards, \<open>ORDER BY timestamp DESC\<close> walks
  it backwards. The \<open>limit\<close> of \<open>getConversationHistory\<close> is a number of rows.
\<close>

definition selectByConversation :: "database \<Rightarrow> jsstring \<Rightarrow> message list" where
  "selectByConversation db cid = filter (\<lambda>m. conversationId m = toWellFormed cid) (messages db)"

definition orderByTimestampAsc :: "message list \<Rightarrow> message list" where
  "orderByTimestampAsc rows = sort_key timestamp rows"

definition orderByTimestampDesc :: "message list \<Rightarrow> message list" where
  "orderByTimestampDesc rows = sort_key (\<lambda>m. - timestamp m) (rev rows)"

definition getMessages :: "database \<Rightarrow> jsstring \<Rightarrow> message list" where
  "getMessages db cid = orderByTimestampAsc (selectByConversation db cid)"

definition getConversationHistory :: "database \<Rightarrow> jsstring \<Rightarrow> nat \<Rightarrow> message list" where
  "getConversationHistory db cid limit =
     rev (take limit (orderByTimestampDesc (selectByConversation db cid)))"

text \<open>\<open>SELECT COUNT(*) as count FROM conversations WHERE id = ?\<close>, then \<open>count > 0\<close>.\<close>

definition conversationExists :: "database \<Rightarrow> jsstring \<Rightarrow> bool" where
  "conversationExists db i =
     (length (filter (\<lambda>c. conv_id c = toWellFormed i) (conversations db)) > 0)"

text \<open>
  The operations of the service, for statements about sequences of calls:
  \<open>applyOp\<close> is the database after one call. An insert that throws changes nothing,
  and the four queries are \<open>SELECT\<close> statements.
\<close>

datatype store_op =
    CreateConversation jsstring int
  | GetConversation jsstring
  | CreateMessage jsstring jsstring sender jsstring int
  | GetMessages jsstring
  | GetConversationHistory jsstring nat
  | ConversationExists jsstring

fun applyOp :: "database \<Rightarrow> store_op \<Rightarrow> database" where
  "applyOp db (CreateConversation i now) =
     (case createConversation db i now of Inl e \<Rightarrow> db | Inr (c, db') \<Rightarrow> db')"
| "applyOp db (CreateMessage i cid sndr txt now) =
     (case createMessage db i cid sndr txt now of Inl e \<Rightarrow> db | Inr (m, db') \<Rightarrow> db')"
| "applyOp db (GetConversation i) = db"
| "applyOp db (GetMessages cid) = db"
| "applyOp db (GetConversationHistory cid limit) = db"
| "applyOp db (ConversationExists i) = db"

definition applyOps :: "database \<Rightarrow> store_op list \<Rightarrow> database" where
  "applyOps db ops = foldl applyOp db ops"

section \<open>llm.ts\<close>

definition FAQ_KNOWLEDGE :: string where
  \<open>FAQ_KNOWLEDGE =
     ''\<newline>'' @
     ''You are a helpful customer support agent for "TechStyle Store", an e-commerce company that sells electronics and fashion items.\<newline>'' @
     ''\<newline>'' @
     ''Here is important information about our store:\<newline>'' @
     ''\<newline>'' @
     ''SHIPPING POLICY:\<newline>'' @
     ''- Free shipping on orders over $50\<newline>'' @
     ''- Standard shipping (5-7 business days): $5.99\<newline>'' @
     ''- Express shipping (2-3 business days): $14.99\<newline>'' @
     ''- International shipping available to USA, Canada, UK, and EU countries\<newline>'' @
     ''- Orders are processed within 24 hours on business days\<newline>'' @
     ''\<newline>'' @
     ''RETURN & REFUND POLICY:\<newline>'' @
     ''- 30-day return window from delivery date\<newline>'' @
     ''- Items must be unused and in original packaging\<newline>'' @
     ''- Free returns for defective or incorrect items\<newline>'' @
     ''- Return shipping cost: $7.99 (deducted from refund) for change of mind\<newline>'' @
     ''- Refunds processed within 5-7 business days after receiving returned items\<newline>'' @
     ''- Original shipping charges are non-refundable\<newline>'' @
     ''\<newline>'' @
     ''SUPPORT HOURS:\<newline>'' @
     ''- Monday to Friday: 9 AM - 6 PM EST\<newline>'' @
     ''- Saturday: 10 AM - 4 PM EST\<newline>'' @
     ''- Sunday: Closed\<newline>'' @
     ''- Email support: support@techstyle.com (responds within 24 hours)\<newline>'' @
     ''- Live chat: Available during support hours\<newline>'' @
     ''\<newline>'' @
     ''PAYMENT METHODS:\<newline>'' @
     ''- Credit/Debit cards (Visa, Mastercard, Amex)\<newline>'' @
     ''- PayPal\<newline>'' @
     ''- Apple Pay and Google Pay\<newline>'' @
     ''\<newline>'' @
     ''GENERAL INFO:\<newline>'' @
     ''- All prices in USD\<newline>'' @
     ''- Price match guarantee within 14 days of purchase\<newline>'' @
     ''- Warranty varies by product (typically 1-2 years manufacturer warranty)\<newline>'' @
     ''\<newline>'' @
     ''Please answer customer questions clearly, concisely, and professionally. If you don't know something, direct them to contact support@techstyle.com.\<newline>''\<close>

text \<open>
  The completion service is outside the program: \<open>generateContent\<close> gives, for the
  prompt it is sent, either a result whose \<open>text\<close> may be undefined, or a thrown error
  whose \<open>message\<close> may be undefined. The model name and the generation settings are
  fixed when the service is constructed.
\<close>

datatype provider_result = Returned "jsstring option" | Threw "jsstring option"

record llm_service =
  generateContent :: "jsstring \<Rightarrow> provider_result"

definition roleOf :: "message \<Rightarrow> jsstring" where
  "roleOf msg = (if sender msg = User then js ''Customer'' else js ''Agent'')"

definition buildConversationContext :: "message list \<Rightarrow> jsstring \<Rightarrow> jsstring" where
  "buildConversationContext history currentMessage =
     (let recentHistory = drop (length history - 10) history
      in js FAQ_KNOWLEDGE @ js ''\<newline>\<newline>''
         @ (if length recentHistory > 0
            then js ''CONVERSATION HISTORY:\<newline>''
                 @ concat (map (\<lambda>msg. roleOf msg @ js '': '' @ msg_text msg @ js ''\<newline>'') recentHistory)
                 @ js ''\<newline>''
            else [])
         @ js ''Customer: '' @ currentMessage @ js ''\<newline>\<newline>Agent:'')"

definition messageIncludes :: "jsstring option \<Rightarrow> string \<Rightarrow> bool" where
  "messageIncludes m needle = (case m of None \<Rightarrow> False | Some s \<Rightarrow> includes_js s (js needle))"

text \<open>The \<open>catch\<close> block of \<open>generateReply\<close>: the message of the error it throws.\<close>

definition classifyError :: "jsstring option \<Rightarrow> jsstring" where
  "classifyError m =
     (if messageIncludes m ''API key'' \<or> messageIncludes m ''API_KEY''
      then js ''Invalid API key. Please check your Gemini API configuration.''
      else if messageIncludes m ''quota'' \<or> messageIncludes m ''rate limit''
      then js ''Rate limit reached. Please try again in a moment.''
      else if messageIncludes m ''timeout''
      then js ''Request timeout. Please try again.''
      else js ''Sorry, I encountered an error processing your request. Please try again.'')"

text \<open>
  \<open>generateReply\<close>: \<open>Inr\<close> the reply it resolves to, \<open>Inl\<close> the message of the error it
  rejects with. An empty reply is thrown inside the \<open>try\<close> block, so it passes through
  the same \<open>catch\<close> as an error of the provider.
\<close>

definition generateReply :: "llm_service \<Rightarrow> message list \<Rightarrow> jsstring \<Rightarrow> jsstring + jsstring" where
  "generateReply llm conversationHistory userMessage =
     (let conversationContext = buildConversationContext conversationHistory userMessage;
          attempt =
            (case generateContent llm conversationContext of
               Returned reply \<Rightarrow>
                 (case reply of
                    None \<Rightarrow> Inl (Some (js ''Empty response from LLM''))
                  | Some r \<Rightarrow>
                      if r = [] \<or> length (trim r) = 0 then Inl (Some (js ''Empty response from LLM''))
                      else Inr (trim r))
             | Threw m \<Rightarrow> Inl m)
      in case attempt of
           Inr reply \<Rightarrow> Inr reply
         | Inl m \<Rightarrow> Inl (classifyError m))"

section \<open>index.ts\<close>

text \<open>
  What one request reads from outside the program: the values of the calls of
  \<open>randomUUID()\<close> and of \<open>Date.now()\<close>, in the order of the handler.
\<close>

record request_env =
  newSessionId :: jsstring
  userMessageId :: jsstring
  aiMessageId :: jsstring
  nowConversation :: int
  nowUserMessage :: int
  nowAiMessage :: int
  nowResponse :: int

datatype response_body =
    ChatMessageResponse jsstring jsstring
  | HistoryResponse "message list" jsstring
  | ErrorResponse jsstring int

record http_response =
  status :: nat
  body :: response_body

fun replyOf :: "response_body \<Rightarrow> jsstring option" where
  "replyOf (ChatMessageResponse r s) = Some r"
| "replyOf _ = None"

fun sessionIdOf :: "response_body \<Rightarrow> jsstring option" where
  "sessionIdOf (ChatMessageResponse r s) = Some s"
| "sessionIdOf (HistoryResponse ms s) = Some s"
| "sessionIdOf _ = None"

text \<open>
  The global error handler, reached through \<open>asyncHandler\<close> when a handler throws. An
  error of the database carries no \<open>status\<close>, so the status is 500; the \<open>details\<close>
  field (the stack trace, in development only) is left out.
\<close>

definition errorHandler :: "request_env \<Rightarrow> sqlite_error \<Rightarrow> http_response" where
  "errorHandler env e =
     \<lparr>status = 500,
      body = ErrorResponse
               (if sqliteErrorMessage e = [] then js ''Internal server error'' else sqliteErrorMessage e)
               (nowResponse env)\<rparr>"

text \<open>\<open>requestSessionId || randomUUID()\<close>: undefined and the empty string are falsy.\<close>

definition resolveSessionId :: "request_env \<Rightarrow> jsstring option \<Rightarrow> jsstring" where
  "resolveSessionId env requestSessionId =
     (case requestSessionId of
        None \<Rightarrow> newSessionId env
      | Some s \<Rightarrow> if s = [] then newSessionId env else s)"

text \<open>The reply of a chat turn: lines 96 to 109 of the handler.\<close>

definition obtainReply :: "llm_service option \<Rightarrow> database \<Rightarrow> jsstring \<Rightarrow> jsstring \<Rightarrow> jsstring" where
  "obtainReply llmService db sid msg =
     (case llmService of
        None \<Rightarrow> js ''Sorry, the AI service is currently unavailable.''
      | Some llm \<Rightarrow>
          (case generateReply llm (getConversationHistory db sid 10) msg of
             Inr aiReply \<Rightarrow> aiReply
           | Inl errorMessage \<Rightarrow>
               if errorMessage = [] then js ''Sorry, I encountered an error. Please try again.''
               else errorMessage))"

text \<open>
  \<open>POST /chat/message\<close>: the response and the database after the request. An insert
  that throws leaves the rows written before it in place.
\<close>

definition postChatMessage ::
  "llm_service option \<Rightarrow> request_env \<Rightarrow> database \<Rightarrow> jsval option \<Rightarrow> http_response \<times> database" where
  "postChatMessage llmService env db reqBody =
     (case validateRequest ChatMessageRequestSchema reqBody of
        Failure err \<Rightarrow> (\<lparr>status = 400, body = ErrorResponse err (nowResponse env)\<rparr>, db)
      | Success d \<Rightarrow>
          (let sid = resolveSessionId env (sessionId d);
               created =
                 (if \<not> conversationExists db sid
                  then (case createConversation db sid (nowConversation env) of
                          Inl e \<Rightarrow> Inl e
                        | Inr (c, db1) \<Rightarrow> Inr db1)
                  else Inr db)
           in case created of
                Inl e \<Rightarrow> (errorHandler env e, db)
              | Inr db1 \<Rightarrow>
                  (case createMessage db1 (userMessageId env) sid User (message d) (nowUserMessage env) of
                     Inl e \<Rightarrow> (errorHandler env e, db1)
                   | Inr (userMsg, db2) \<Rightarrow>
                       (let aiReply = obtainReply llmService db2 sid (message d)
                        in case createMessage db2 (aiMessageId env) sid Ai aiReply (nowAiMessage env) of
                             Inl e \<Rightarrow> (errorHandler env e, db2)
                           | Inr (aiMsg, db3) \<Rightarrow>
                               (\<lparr>status = 200, body = ChatMessageResponse aiReply sid\<rparr>, db3)))))"

text \<open>
  \<open>GET /chat/history/:sessionId\<close>: the path parameter is a string; the handler writes
  nothing.
\<close>

definition getChatHistory :: "request_env \<Rightarrow> database \<Rightarrow> jsstring \<Rightarrow> http_response" where
  "getChatHistory env db param =
     (case validateRequest SessionIdParamSchema (Some (JObj [(js ''sessionId'', JStr param)])) of
        Failure err \<Rightarrow> \<lparr>status = 400, body = ErrorResponse err (nowResponse env)\<rparr>
      | Success sid \<Rightarrow>
          if \<not> conversationExists db sid
          then \<lparr>status = 404, body = ErrorResponse (js ''Conversation not found'') (nowResponse env)\<rparr>
          else \<lparr>status = 200, body = HistoryResponse (getMessages db sid) sid\<rparr>)"

section \<open>Example data\<close>

definition exampleSessionId :: jsstring where
  "exampleSessionId = js ''123e4567-e89b-42d3-a456-426614174000''"

definition exampleEnv :: request_env where
  "exampleEnv = \<lparr>newSessionId = js ''9b2e7c1a-3f4d-4e5f-8a6b-0c1d2e3f4a5b'',
                  userMessageId = js ''u1'', aiMessageId = js ''a1'',
                  nowConversation = 100, nowUserMessage = 100, nowAiMessage = 101, nowResponse = 102\<rparr>"

definition emptyDatabase :: database where
  "emptyDatabase = \<lparr>conversations = [], messages = [], foreign_keys = True\<rparr>"

definition quotaProvider :: llm_service where
  "quotaProvider = \<lparr>generateContent = (\<lambda>prompt. Threw (Some (js ''429: quota exceeded for project'')))\<rparr>"

section \<open>The validator\<close>

lemmas eval_defs = js_def trim_def isWhiteSpace_def getProp_def validateRequest_def
  ChatMessageRequestSchema_def messageSchema_def optionalSessionIdSchema_def zString_def
  zOptional_def issuesOf_def

lemma length_trim_le: "length (trim s) \<le> length s"
  unfolding trim_def
  by (metis length_rev length_dropWhile_le order_trans)

lemma trim_Nil: "trim [] = []"
  by (simp add: trim_def)

lemma messageSchema_checks:
  "foldl runCheck (s, [])
     [MinLength 1 (js ''Message cannot be empty''),
      MaxLength 2000 (js ''Message is too long. Please keep it under 2000 characters.''),
      Trim,
      Refine (\<lambda>msg. length msg > 0) (js ''Message cannot be empty after trimming whitespace'')]
   = (trim s,
      (if length s < 1 then [js ''Message cannot be empty''] else [])
      @ (if length s > 2000 then [js ''Message is too long. Please keep it under 2000 characters.''] else [])
      @ (if length (trim s) > 0 then [] else [js ''Message cannot be empty after trimming whitespace'']))"
  by simp

lemma messageSchema_string:
  "messageSchema (Some (JStr s)) =
     (if length s < 1 then Inl [js ''Message cannot be empty'', js ''Message cannot be empty after trimming whitespace'']
      else if length s > 2000 then
        Inl (js ''Message is too long. Please keep it under 2000 characters.''
             # (if length (trim s) > 0 then [] else [js ''Message cannot be empty after trimming whitespace'']))
      else if length (trim s) > 0 then Inr (trim s)
      else Inl [js ''Message cannot be empty after trimming whitespace''])"
  unfolding messageSchema_def zString_def
  by (simp only: messageSchema_checks option.case jsval.case) (auto simp: trim_Nil)

lemma messageSchema_not_string:
  "(\<forall>s. v \<noteq> Some (JStr s)) \<Longrightarrow> messageSchema v = Inl [js ''Message must be a string'']"
  unfolding messageSchema_def zString_def
  by (auto split: option.splits jsval.splits)

lemma messageSchema_accepts_iff:
  "messageSchema v = Inr t \<longleftrightarrow>
     (\<exists>s. v = Some (JStr s) \<and> 1 \<le> length s \<and> length s \<le> 2000 \<and> 1 \<le> length (trim s) \<and> t = trim s)"
proof (cases "\<exists>s. v = Some (JStr s)")
  case True
  then obtain s where "v = Some (JStr s)" by blast
  then show ?thesis by (auto simp: messageSchema_string Suc_le_eq)
next
  case False
  then show ?thesis by (auto simp: messageSchema_not_string)
qed


lemma sessionIdSchema_accepts_iff:
  "optionalSessionIdSchema v = Inr sid \<longleftrightarrow>
     (case v of None \<Rightarrow> sid = None | Some x \<Rightarrow> (\<exists>u. x = JStr u \<and> uuidRegex u \<and> sid = Some u))"
  unfolding optionalSessionIdSchema_def zOptional_def zString_def
  by (auto split: option.splits jsval.splits sum.splits list.splits prod.splits if_splits)

lemma validateRequest_Success_iff:
  "validateRequest schema d = Success x \<longleftrightarrow> schema d = Inr x"
  unfolding validateRequest_def
  by (auto split: sum.splits list.splits)

lemma ChatMessageRequestSchema_accepts_iff:
  "ChatMessageRequestSchema reqBody = Inr d \<longleftrightarrow>
     (\<exists>props. reqBody = Some (JObj props)
        \<and> messageSchema (getProp (JObj props) (js ''message'')) = Inr (message d)
        \<and> optionalSessionIdSchema (getProp (JObj props) (js ''sessionId'')) = Inr (sessionId d))"
  unfolding ChatMessageRequestSchema_def Let_def
  by (cases d) (auto split: option.splits jsval.splits sum.splits)

lemma postChatMessage_rejected:
  "validateRequest ChatMessageRequestSchema reqBody = Failure err \<Longrightarrow>
   postChatMessage llmService env db reqBody =
     (\<lparr>status = 400, body = ErrorResponse err (nowResponse env)\<rparr>, db)"
  by (simp add: postChatMessage_def)

lemma validateRequest_cases:
  "(\<exists>x. validateRequest schema d = Success x) \<or> (\<exists>err. validateRequest schema d = Failure err)"
  by (cases "validateRequest schema d") auto

lemma messageSchema_rejects:
  assumes "length (trim s) = 0 \<or> length (trim s) > 2000"
  shows "\<exists>issues. messageSchema (Some (JStr s)) = Inl issues"
proof -
  have "length (trim s) \<le> length s" by (rule length_trim_le)
  with assms show ?thesis by (auto simp: messageSchema_string)
qed

lemma chat_request_rejected:
  assumes "getProp (JObj props) (js ''message'') = Some (JStr s)"
    and "length (trim s) = 0 \<or> length (trim s) > 2000"
  shows "\<exists>err. validateRequest ChatMessageRequestSchema (Some (JObj props)) = Failure err"
proof -
  from assms(2) obtain issues where "messageSchema (Some (JStr s)) = Inl issues"
    using messageSchema_rejects by blast
  with assms(1) have "\<forall>d. ChatMessageRequestSchema (Some (JObj props)) \<noteq> Inr d"
    by (auto simp: ChatMessageRequestSchema_accepts_iff)
  then have "\<forall>d. validateRequest ChatMessageRequestSchema (Some (JObj props)) \<noteq> Success d"
    by (simp add: validateRequest_Success_iff)
  then show ?thesis
    using validateRequest_cases [of ChatMessageRequestSchema "Some (JObj props)"] by auto
qed

lemma trim_padded: "trim (0x61 # replicate n 0x20) = [0x61]"
proof -
  have "dropWhile isWhiteSpace (replicate n 0x20 @ [0x61]) = dropWhile isWhiteSpace [0x61]"
    by (rule dropWhile_append2) (simp add: isWhiteSpace_def)
  then show ?thesis
    by (simp add: trim_def isWhiteSpace_def)
qed

text \<open>
  Claim C1, as the code has it. The length checks \<open>min(1)\<close> and \<open>max(2000)\<close> are chained
  before \<open>trim()\<close>, so they see the string as it was sent. The validator accepts a
  payload exactly when the body is an object whose \<open>message\<close> is a string of 1 to 2000
  code units before trimming and of at least 1 code unit after trimming, and whose
  \<open>sessionId\<close> is absent or a string of UUID syntax; the accepted message is the
  trimmed string. For every message whose trimmed length is 0 or greater than 2000,
  \<open>POST /chat/message\<close> answers 400 and leaves the database as it was.
\<close>

theorem validator_accepts_iff_and_rejects_400:
  "(validateRequest ChatMessageRequestSchema reqBody = Success d \<longleftrightarrow>
      (\<exists>props s. reqBody = Some (JObj props)
         \<and> getProp (JObj props) (js ''message'') = Some (JStr s)
         \<and> 1 \<le> length s \<and> length s \<le> 2000 \<and> 1 \<le> length (trim s)
         \<and> message d = trim s
         \<and> (case getProp (JObj props) (js ''sessionId'') of
               None \<Rightarrow> sessionId d = None
             | Some x \<Rightarrow> (\<exists>u. x = JStr u \<and> uuidRegex u \<and> sessionId d = Some u))))
   \<and> (getProp (JObj props') (js ''message'') = Some (JStr s')
        \<and> (length (trim s') = 0 \<or> 2000 < length (trim s'))
      \<longrightarrow> (\<exists>err. postChatMessage llmService env db (Some (JObj props'))
                   = (\<lparr>status = 400, body = ErrorResponse err (nowResponse env)\<rparr>, db)))"
proof (intro conjI impI)
  show "validateRequest ChatMessageRequestSchema reqBody = Success d \<longleftrightarrow>
      (\<exists>props s. reqBody = Some (JObj props)
         \<and> getProp (JObj props) (js ''message'') = Some (JStr s)
         \<and> 1 \<le> length s \<and> length s \<le> 2000 \<and> 1 \<le> length (trim s)
         \<and> message d = trim s
         \<and> (case getProp (JObj props) (js ''sessionId'') of
               None \<Rightarrow> sessionId d = None
             | Some x \<Rightarrow> (\<exists>u. x = JStr u \<and> uuidRegex u \<and> sessionId d = Some u)))"
    unfolding validateRequest_Success_iff ChatMessageRequestSchema_accepts_iff
      messageSchema_accepts_iff sessionIdSchema_accepts_iff
    by blast
next
  assume a: "getProp (JObj props') (js ''message'') = Some (JStr s')
        \<and> (length (trim s') = 0 \<or> 2000 < length (trim s'))"
  then obtain err where "validateRequest ChatMessageRequestSchema (Some (JObj props')) = Failure err"
    using chat_request_rejected by blast
  then show "\<exists>err. postChatMessage llmService env db (Some (JObj props'))
                   = (\<lparr>status = 400, body = ErrorResponse err (nowResponse env)\<rparr>, db)"
    using postChatMessage_rejected by blast
qed

theorem validator_accepts_iff_and_rejects_400_witness:
  "validateRequest ChatMessageRequestSchema (Some (JObj [(js ''message'', JStr (js '' hi ''))]))
     = Success \<lparr>message = js ''hi'', sessionId = None\<rparr>
   \<and> getProp (JObj [(js ''message'', JStr (js ''  ''))]) (js ''message'') = Some (JStr (js ''  ''))
   \<and> length (trim (js ''  '')) = 0
   \<and> postChatMessage None exampleEnv emptyDatabase (Some (JObj [(js ''message'', JStr (js ''  ''))]))
       = (\<lparr>status = 400,
           body = ErrorResponse (js ''Message cannot be empty after trimming whitespace'') 102\<rparr>,
          emptyDatabase)"
  using validator_accepts_iff_and_rejects_400
    [where reqBody = "Some (JObj [(js ''message'', JStr (js '' hi ''))])"
       and d = "\<lparr>message = js ''hi'', sessionId = None\<rparr>"
       and props' = "[(js ''message'', JStr (js ''  ''))]" and s' = "js ''  ''"
       and llmService = None and env = exampleEnv and db = emptyDatabase]
  by (simp add: eval_defs postChatMessage_def exampleEnv_def)

text \<open>
  Claim C1 as stated fails: the letter \<open>a\<close> followed by 2000 spaces has trimmed length 1,
  and the validator rejects it as too long.
\<close>

theorem trimmed_length_criterion_counterexample:
  "length (trim (0x61 # replicate 2000 0x20)) = 1
   \<and> validateRequest ChatMessageRequestSchema
        (Some (JObj [(js ''message'', JStr (0x61 # replicate 2000 0x20))]))
      = Failure (js ''Message is too long. Please keep it under 2000 characters.'')"
  by (simp add: trim_padded validateRequest_def ChatMessageRequestSchema_def getProp_def
      messageSchema_string optionalSessionIdSchema_def zOptional_def issuesOf_def js_def)

section \<open>Strings as text values\<close>

lemma toWellFormed_fixed: "isWellFormed s \<Longrightarrow> toWellFormed s = s"
  by (induction s rule: isWellFormed.induct) (auto split: if_splits)

lemma below_surrogates:
  "c < 0xD800 \<Longrightarrow> \<not> isHighSurrogate c \<and> \<not> isLowSurrogate c"
  by (simp add: isHighSurrogate_def isLowSurrogate_def word_le_nat_alt word_less_nat_alt)

lemma not_surrogate_wellFormed:
  "list_all (\<lambda>c. c < 0xD800) s \<Longrightarrow> isWellFormed s"
  by (induction s rule: isWellFormed.induct) (auto dest: below_surrogates)

lemma of_char_below_surrogates: "(of_char c :: code_unit) < 0xD800"
proof -
  have small: "(of_char c :: nat) < 256"
    by simp
  then have "(of_char c :: nat) < 65536"
    by linarith
  then have "(of_char c :: nat) mod 65536 = of_char c"
    by (rule mod_less)
  moreover have "(of_char c :: nat) < 0xD800"
    using small by linarith
  ultimately have "unat (of_nat (of_char c) :: code_unit) < 0xD800"
    by (simp only: unat_of_nat len_of_numeral_defs) simp
  then show ?thesis
    by (simp add: word_less_nat_alt of_nat_of_char)
qed

lemma js_wellFormed: "isWellFormed (js s)"
  by (rule not_surrogate_wellFormed) (simp add: js_def list_all_iff of_char_below_surrogates)

lemma toWellFormed_js: "toWellFormed (js s) = js s"
  by (rule toWellFormed_fixed) (rule js_wellFormed)

lemma isHexDigit_below: "isHexDigit c \<Longrightarrow> c < 0xD800"
  by (auto simp: isHexDigit_def word_le_nat_alt word_less_nat_alt)

lemma hex_segment:
  assumes "list_all isHexDigit (take n (drop k s))" and "k + n \<le> length s"
    and "k \<le> i" and "i < k + n"
  shows "s ! i < 0xD800"
proof -
  from assms(2-4) have "i - k < length (take n (drop k s))"
    by simp
  with assms(1) have "isHexDigit (take n (drop k s) ! (i - k))"
    by (simp add: list_all_length)
  moreover from assms(2-4) have "take n (drop k s) ! (i - k) = s ! i"
    by simp
  ultimately show ?thesis
    by (simp add: isHexDigit_below)
qed

lemma uuid_units:
  assumes len: "length s = 36"
    and "list_all isHexDigit (take 8 s)" "s ! 8 = 0x2D"
    and "list_all isHexDigit (take 4 (drop 9 s))" "s ! 13 = 0x2D"
    and "isVersionDigit (s ! 14)" "list_all isHexDigit (take 3 (drop 15 s))" "s ! 18 = 0x2D"
    and "isVariantDigit (s ! 19)" "list_all isHexDigit (take 3 (drop 20 s))" "s ! 23 = 0x2D"
    and "list_all isHexDigit (drop 24 s)"
  shows "list_all (\<lambda>c. c < 0xD800) s"
proof -
  have first: "list_all isHexDigit (take 8 (drop 0 s))"
    using assms(2) by simp
  have last: "list_all isHexDigit (take 12 (drop 24 s))"
    using assms(12) len by simp
  have "s ! i < 0xD800" if "i < 36" for i
  proof -
    consider "i < 8" | "i = 8" | "9 \<le> i \<and> i < 13" | "i = 13" | "i = 14" | "15 \<le> i \<and> i < 18"
      | "i = 18" | "i = 19" | "20 \<le> i \<and> i < 23" | "i = 23" | "24 \<le> i"
      by linarith
    then show ?thesis
    proof cases
      case 1
      then show ?thesis using hex_segment [OF first, of i] len by simp
    next
      case 2
      with assms(3) show ?thesis by simp
    next
      case 3
      then show ?thesis using hex_segment [OF assms(4), of i] len by simp
    next
      case 4
      with assms(5) show ?thesis by simp
    next
      case 5
      with assms(6) show ?thesis
        by (simp add: isVersionDigit_def word_le_nat_alt word_less_nat_alt)
    next
      case 6
      then show ?thesis using hex_segment [OF assms(7), of i] len by simp
    next
      case 7
      with assms(8) show ?thesis by simp
    next
      case 8
      with assms(9) show ?thesis by (auto simp: isVariantDigit_def)
    next
      case 9
      then show ?thesis using hex_segment [OF assms(10), of i] len by simp
    next
      case 10
      with assms(11) show ?thesis by simp
    next
      case 11
      then show ?thesis using hex_segment [OF last, of i] len that by simp
    qed
  qed
  with len show ?thesis
    by (simp add: list_all_length)
qed

lemma uuidRegex_wellFormed: "uuidRegex s \<Longrightarrow> isWellFormed s"
  unfolding uuidRegex_def
  using uuid_units [of s] not_surrogate_wellFormed [of s] js_wellFormed
  by blast

lemma toWellFormed_uuid: "uuidRegex s \<Longrightarrow> toWellFormed s = s"
  by (simp add: uuidRegex_wellFormed toWellFormed_fixed)

section \<open>The conversation store\<close>

lemma sorted_rev_map_uminus:
  fixes zs :: "int list"
  assumes "sorted zs"
  shows "sorted (map uminus (rev zs))"
  using assms
  by (induction zs) (auto simp: sorted_append)

lemma orderByTimestampDesc_rev_Asc:
  "orderByTimestampDesc rows = rev (orderByTimestampAsc rows)"
proof -
  let ?ys = "rev (sort_key timestamp rows)"
  have perm: "mset ?ys = mset (rev rows)"
    by simp
  have stable: "filter (\<lambda>x. - timestamp k = - timestamp x) ?ys
                  = filter (\<lambda>x. - timestamp k = - timestamp x) (rev rows)" for k :: message
  proof -
    have eq: "(\<lambda>x::message. - timestamp k = - timestamp x) = (\<lambda>x. timestamp x = timestamp k)"
      by auto
    show ?thesis
      unfolding eq by (simp add: rev_filter [symmetric] sort_key_stable)
  qed
  have ordered: "sorted (map (\<lambda>m. - timestamp m) ?ys)"
  proof -
    have "sorted (map timestamp (sort_key timestamp rows))"
      by simp
    then have "sorted (map uminus (rev (map timestamp (sort_key timestamp rows))))"
      by (rule sorted_rev_map_uminus)
    then show ?thesis
      by (simp add: rev_map comp_def)
  qed
  have "sort_key (\<lambda>m. - timestamp m) (rev rows) = ?ys"
    using perm stable ordered by (rule properties_for_sort_key)
  then show ?thesis
    by (simp add: orderByTimestampDesc_def orderByTimestampAsc_def)
qed

lemma getConversationHistory_last:
  "getConversationHistory db cid n
     = drop (length (getMessages db cid) - n) (getMessages db cid)"
  by (simp add: getConversationHistory_def getMessages_def orderByTimestampDesc_rev_Asc rev_take)

lemma getMessages_sorted: "sorted (map timestamp (getMessages db cid))"
  by (simp add: getMessages_def orderByTimestampAsc_def)

lemma getMessages_mset:
  "mset (getMessages db cid)
     = mset (filter (\<lambda>m. conversationId m = toWellFormed cid) (messages db))"
  by (simp add: getMessages_def orderByTimestampAsc_def selectByConversation_def)

lemma getMessages_ties:
  "filter (\<lambda>m. timestamp m = t) (getMessages db cid)
     = filter (\<lambda>m. timestamp m = t)
         (filter (\<lambda>m. conversationId m = toWellFormed cid) (messages db))"
  by (simp add: getMessages_def orderByTimestampAsc_def selectByConversation_def sort_key_stable)

text \<open>
  Claim C3. For every conversation id and every limit \<open>n\<close>, \<open>getConversationHistory\<close>
  returns at most \<open>n\<close> messages, and they are the last \<open>n\<close> entries of
  \<open>getMessages\<close> for that id, in the same ascending order; nothing is assumed about
  the timestamps, so this covers ties and limits below the number of messages.
\<close>

theorem history_is_last_n_of_messages:
  "length (getConversationHistory db cid n) \<le> n
   \<and> getConversationHistory db cid n
       = drop (length (getMessages db cid) - n) (getMessages db cid)
   \<and> sorted (map timestamp (getConversationHistory db cid n))"
proof (intro conjI)
  show "length (getConversationHistory db cid n) \<le> n"
    by (simp add: getConversationHistory_def)
  show "getConversationHistory db cid n
       = drop (length (getMessages db cid) - n) (getMessages db cid)"
    by (rule getConversationHistory_last)
  show "sorted (map timestamp (getConversationHistory db cid n))"
    unfolding getConversationHistory_last
    by (simp add: drop_map [symmetric] getMessages_sorted)
qed

lemma conversationExists_iff:
  "conversationExists db i \<longleftrightarrow> toWellFormed i \<in> set (map conv_id (conversations db))"
  by (force simp: conversationExists_def filter_empty_conv image_iff)


lemma applyOp_appends:
  "\<exists>cs ms. conversations (applyOp db op) = conversations db @ cs
         \<and> messages (applyOp db op) = messages db @ ms"
  by (cases op) (auto simp: createConversation_def createMessage_def Let_def)

lemma applyOps_appends:
  "\<exists>cs ms. conversations (applyOps db ops) = conversations db @ cs
         \<and> messages (applyOps db ops) = messages db @ ms"
  unfolding applyOps_def
proof (induction ops arbitrary: db)
  case Nil
  then show ?case by simp
next
  case (Cons op ops)
  obtain cs ms where step: "conversations (applyOp db op) = conversations db @ cs"
      "messages (applyOp db op) = messages db @ ms"
    using applyOp_appends by blast
  obtain cs' ms' where rest:
      "conversations (foldl applyOp (applyOp db op) ops) = conversations (applyOp db op) @ cs'"
      "messages (foldl applyOp (applyOp db op) ops) = messages (applyOp db op) @ ms'"
    using Cons.IH by blast
  show ?case
    using step rest by simp
qed

text \<open>
  Claim C7. After any sequence of operations of the store, run from any state the
  store has reached, both tables are the tables of that state followed by the rows
  added since: every row persisted before is still there, unchanged and at its place.
\<close>

theorem store_is_append_only:
  "\<exists>cs ms. conversations (applyOps (applyOps db before) ops)
             = conversations (applyOps db before) @ cs
         \<and> messages (applyOps (applyOps db before) ops)
             = messages (applyOps db before) @ ms"
  by (rule applyOps_appends)

section \<open>The history endpoint\<close>

lemma validate_session_param:
  "validateRequest SessionIdParamSchema (Some (JObj [(js ''sessionId'', JStr p)]))
     = (if uuidRegex p then Success p else Failure (js ''Invalid session ID format''))"
  by (simp add: validateRequest_def SessionIdParamSchema_def getProp_def zString_def js_def)

text \<open>
  Claim C5. For a path parameter of UUID syntax, \<open>GET /chat/history/:sessionId\<close>
  answers 404 with the error \<open>Conversation not found\<close> when no conversation has that
  id, and otherwise 200 with exactly the messages persisted for that conversation
  (the same rows, as a multiset), in ascending order of timestamp.
\<close>

theorem history_endpoint_valid_uuid:
  assumes "uuidRegex sid"
  shows "(sid \<notin> set (map conv_id (conversations db)) \<longrightarrow>
            getChatHistory env db sid
              = \<lparr>status = 404, body = ErrorResponse (js ''Conversation not found'') (nowResponse env)\<rparr>)
         \<and> (sid \<in> set (map conv_id (conversations db)) \<longrightarrow>
            (\<exists>ms. getChatHistory env db sid = \<lparr>status = 200, body = HistoryResponse ms sid\<rparr>
               \<and> mset ms = mset (filter (\<lambda>m. conversationId m = sid) (messages db))
               \<and> sorted (map timestamp ms)))"
  using assms toWellFormed_uuid [OF assms]
  by (simp add: getChatHistory_def validate_session_param conversationExists_iff
      getMessages_mset getMessages_sorted)

section \<open>The reply generator\<close>

lemma trim_decompose: "dropWhile isWhiteSpace s = trim s @ rev (takeWhile isWhiteSpace (rev (dropWhile isWhiteSpace s)))"
proof -
  let ?a = "dropWhile isWhiteSpace s"
  have "rev ?a = takeWhile isWhiteSpace (rev ?a) @ dropWhile isWhiteSpace (rev ?a)"
    by simp
  then have "?a = rev (dropWhile isWhiteSpace (rev ?a)) @ rev (takeWhile isWhiteSpace (rev ?a))"
    by (metis rev_append rev_rev_ident)
  then show ?thesis
    unfolding trim_def .
qed

lemma trim_last: "trim s \<noteq> [] \<Longrightarrow> \<not> isWhiteSpace (last (trim s))"
  unfolding trim_def
  by (simp add: last_rev hd_dropWhile)

lemma trim_hd:
  assumes "trim s \<noteq> []"
  shows "\<not> isWhiteSpace (hd (trim s))"
proof -
  let ?a = "dropWhile isWhiteSpace s"
  have "?a \<noteq> []"
  proof
    assume e: "?a = []"
    have "trim s = rev (dropWhile isWhiteSpace (rev ?a))"
      by (simp only: trim_def)
    also have "\<dots> = []"
      unfolding e by simp
    finally show False
      using assms by simp
  qed
  then have "\<not> isWhiteSpace (hd ?a)"
    by (rule hd_dropWhile)
  moreover have "hd ?a = hd (trim s)"
    using assms trim_decompose [of s] by (metis hd_append2)
  ultimately show ?thesis by simp
qed

lemma trim_fixed:
  assumes "s \<noteq> []" "\<not> isWhiteSpace (hd s)" "\<not> isWhiteSpace (last s)"
  shows "trim s = s"
proof -
  from assms(1,2) have a: "dropWhile isWhiteSpace s = s"
    by (cases s) auto
  from assms(1,3) have "dropWhile isWhiteSpace (rev s) = rev s"
    by (cases "rev s") (auto simp: last_rev [symmetric] hd_rev)
  with a show ?thesis
    by (simp add: trim_def)
qed

lemma trim_idem: "trim (trim s) = trim s"
proof (cases "trim s = []")
  case True
  then show ?thesis by (simp add: trim_Nil)
next
  case False
  then show ?thesis
    by (intro trim_fixed trim_hd trim_last)
qed

lemma trim_not_all_whitespace: "trim s \<noteq> [] \<Longrightarrow> \<not> list_all isWhiteSpace (trim s)"
  using trim_hd [of s] by (cases "trim s") auto

lemma classify_empty_completion:
  "classifyError (Some (js ''Empty response from LLM''))
     = js ''Sorry, I encountered an error processing your request. Please try again.''"
  by (simp add: classifyError_def messageIncludes_def js_def)

lemma generateReply_unfold:
  "generateReply llm history userMessage =
     (case generateContent llm (buildConversationContext history userMessage) of
        Returned None \<Rightarrow> Inl (js ''Sorry, I encountered an error processing your request. Please try again.'')
      | Returned (Some r) \<Rightarrow>
          if trim r = [] then Inl (js ''Sorry, I encountered an error processing your request. Please try again.'')
          else Inr (trim r)
      | Threw m \<Rightarrow> Inl (classifyError m))"
  by (auto simp: generateReply_def Let_def classify_empty_completion trim_Nil
      split: provider_result.splits option.splits)

lemma classifyError_fixed:
  "classifyError m \<in>
     {js ''Invalid API key. Please check your Gemini API configuration.'',
      js ''Rate limit reached. Please try again in a moment.'',
      js ''Request timeout. Please try again.'',
      js ''Sorry, I encountered an error processing your request. Please try again.''}"
  by (simp add: classifyError_def)

lemma classifyError_nonempty: "classifyError m \<noteq> []"
  by (simp add: classifyError_def js_def)

section \<open>The chat turn\<close>

lemma postChatMessage_accepted:
  assumes "validateRequest ChatMessageRequestSchema reqBody = Success d"
  shows "postChatMessage llmService env db reqBody =
    (let sid = resolveSessionId env (sessionId d);
         db1 = (if conversationExists db sid then db
                else db\<lparr>conversations := conversations db
                         @ [\<lparr>conv_id = toWellFormed sid, createdAt = nowConversation env\<rparr>]\<rparr>);
         userMsg = \<lparr>msg_id = toWellFormed (userMessageId env), conversationId = toWellFormed sid,
                    sender = User, msg_text = toWellFormed (message d),
                    timestamp = nowUserMessage env\<rparr>;
         db2 = db1\<lparr>messages := messages db @ [userMsg]\<rparr>;
         aiReply = obtainReply llmService db2 sid (message d);
         aiMsg = \<lparr>msg_id = toWellFormed (aiMessageId env), conversationId = toWellFormed sid,
                  sender = Ai, msg_text = toWellFormed aiReply, timestamp = nowAiMessage env\<rparr>
     in if toWellFormed (userMessageId env) \<in> set (map msg_id (messages db))
        then (errorHandler env (UniqueConstraintFailed ''messages.id''), db1)
        else if toWellFormed (aiMessageId env) \<in> set (map msg_id (messages db))
                \<or> toWellFormed (aiMessageId env) = toWellFormed (userMessageId env)
        then (errorHandler env (UniqueConstraintFailed ''messages.id''), db2)
        else (\<lparr>status = 200, body = ChatMessageResponse aiReply sid\<rparr>,
              db2\<lparr>messages := messages db @ [userMsg, aiMsg]\<rparr>))"
proof (cases "conversationExists db (resolveSessionId env (sessionId d))")
  case True
  then show ?thesis
    using assms
    by (simp add: postChatMessage_def createMessage_def conversationExists_iff Let_def)
next
  case False
  then show ?thesis
    using assms
    by (simp add: postChatMessage_def createConversation_def createMessage_def
        conversationExists_iff Let_def)
qed

lemma errorHandler_status: "status (errorHandler env e) = 500"
  by (simp add: errorHandler_def)

lemma uuidRegex_nonempty: "uuidRegex s \<Longrightarrow> s \<noteq> []"
  by (auto simp: uuidRegex_def js_def)

lemma getConversationHistory_messages_only:
  "messages db' = messages db \<Longrightarrow> getConversationHistory db' cid n = getConversationHistory db cid n"
  by (simp add: getConversationHistory_def selectByConversation_def)

lemma obtainReply_messages_only:
  assumes "messages db' = messages db"
  shows "obtainReply llmService db' sid msg = obtainReply llmService db sid msg"
proof -
  have h: "getConversationHistory db' sid 10 = getConversationHistory db sid 10"
    using assms by (rule getConversationHistory_messages_only)
  show ?thesis
    unfolding obtainReply_def h by (rule refl)
qed

lemma generateReply_error_nonempty: "generateReply llm h m = Inl e \<Longrightarrow> e \<noteq> []"
  by (auto simp: generateReply_unfold classifyError_nonempty js_def
      split: provider_result.splits option.splits if_splits)

lemma obtainReply_unfold:
  "obtainReply llmService db sid msg =
     (case llmService of
        None \<Rightarrow> js ''Sorry, the AI service is currently unavailable.''
      | Some llm \<Rightarrow>
          (case generateReply llm (getConversationHistory db sid 10) msg of
             Inr r \<Rightarrow> r
           | Inl fallback \<Rightarrow> fallback))"
  by (auto simp: obtainReply_def generateReply_error_nonempty split: option.splits sum.splits)

lemma classifyError_wellFormed: "toWellFormed (classifyError m) = classifyError m"
  by (simp add: classifyError_def toWellFormed_js)

lemma generateReply_error_wellFormed:
  "generateReply llm h m = Inl e \<Longrightarrow> toWellFormed e = e"
  by (auto simp: generateReply_unfold classifyError_wellFormed toWellFormed_js
      split: provider_result.splits option.splits if_splits)

text \<open>
  Claim C2. Take a chat turn whose body passed validation and whose two generated
  message ids are unused (\<open>randomUUID\<close> gives identifiers that are not in use), so
  that the user message is persisted. The turn then answers 200 with a reply: the
  unavailability text when no service is configured, the generated reply when the
  service resolves, and the message of the rejection when it fails. The \<open>messages\<close>
  table is the old table followed by the user message and an \<open>ai\<close> message that
  holds the reply as a \<open>TEXT\<close> value; when no service is configured or the
  generator fails, that value is the reply itself.
\<close>

theorem turn_completes_after_user_message:
  assumes "validateRequest ChatMessageRequestSchema reqBody = Success d"
    and "toWellFormed (userMessageId env) \<notin> set (map msg_id (messages db))"
    and "toWellFormed (aiMessageId env) \<notin> set (map msg_id (messages db))"
    and "toWellFormed (aiMessageId env) \<noteq> toWellFormed (userMessageId env)"
  shows "let sid = resolveSessionId env (sessionId d);
             userMsg = \<lparr>msg_id = toWellFormed (userMessageId env),
                        conversationId = toWellFormed sid, sender = User,
                        msg_text = toWellFormed (message d), timestamp = nowUserMessage env\<rparr>;
             history = getConversationHistory (db\<lparr>messages := messages db @ [userMsg]\<rparr>) sid 10;
             reply = (case llmService of
                        None \<Rightarrow> js ''Sorry, the AI service is currently unavailable.''
                      | Some llm \<Rightarrow>
                          (case generateReply llm history (message d) of
                             Inr r \<Rightarrow> r
                           | Inl fallback \<Rightarrow> fallback));
             aiMsg = \<lparr>msg_id = toWellFormed (aiMessageId env),
                      conversationId = toWellFormed sid, sender = Ai,
                      msg_text = toWellFormed reply, timestamp = nowAiMessage env\<rparr>
         in fst (postChatMessage llmService env db reqBody)
              = \<lparr>status = 200, body = ChatMessageResponse reply sid\<rparr>
            \<and> messages (snd (postChatMessage llmService env db reqBody))
                = messages db @ [userMsg, aiMsg]
            \<and> (llmService = None
                 \<or> (\<exists>llm e. llmService = Some llm \<and> generateReply llm history (message d) = Inl e)
               \<longrightarrow> msg_text aiMsg = reply)"
proof -
  let ?sid = "resolveSessionId env (sessionId d)"
  let ?userMsg = "\<lparr>msg_id = toWellFormed (userMessageId env),
                        conversationId = toWellFormed ?sid, sender = User,
                        msg_text = toWellFormed (message d), timestamp = nowUserMessage env\<rparr>"
  let ?db1 = "if conversationExists db ?sid then db
                else db\<lparr>conversations := conversations db
                         @ [\<lparr>conv_id = toWellFormed ?sid, createdAt = nowConversation env\<rparr>]\<rparr>"
  let ?history = "getConversationHistory (db\<lparr>messages := messages db @ [?userMsg]\<rparr>) ?sid 10"
  let ?reply = "case llmService of
                  None \<Rightarrow> js ''Sorry, the AI service is currently unavailable.''
                | Some llm \<Rightarrow>
                    (case generateReply llm ?history (message d) of
                       Inr r \<Rightarrow> r
                     | Inl fallback \<Rightarrow> fallback)"
  have same: "obtainReply llmService (?db1\<lparr>messages := messages db @ [?userMsg]\<rparr>) ?sid (message d)
          = obtainReply llmService (db\<lparr>messages := messages db @ [?userMsg]\<rparr>) ?sid (message d)"
    by (rule obtainReply_messages_only) simp
  have turn: "fst (postChatMessage llmService env db reqBody)
              = \<lparr>status = 200, body = ChatMessageResponse ?reply ?sid\<rparr>
            \<and> messages (snd (postChatMessage llmService env db reqBody))
                = messages db
                  @ [?userMsg,
                     \<lparr>msg_id = toWellFormed (aiMessageId env),
                      conversationId = toWellFormed ?sid, sender = Ai,
                      msg_text = toWellFormed ?reply, timestamp = nowAiMessage env\<rparr>]"
    using assms(2-4) same
    by (simp add: postChatMessage_accepted [OF assms(1)] Let_def obtainReply_unfold)
  have fallback: "toWellFormed ?reply = ?reply"
    if "llmService = None
        \<or> (\<exists>llm e. llmService = Some llm \<and> generateReply llm ?history (message d) = Inl e)"
    using that
    by (auto simp: toWellFormed_js generateReply_error_wellFormed)
  show ?thesis
    unfolding Let_def
  proof (intro conjI impI)
    show "fst (postChatMessage llmService env db reqBody)
            = \<lparr>status = 200, body = ChatMessageResponse ?reply ?sid\<rparr>"
      using turn by simp
    show "messages (snd (postChatMessage llmService env db reqBody))
            = messages db
              @ [?userMsg,
                 \<lparr>msg_id = toWellFormed (aiMessageId env),
                  conversationId = toWellFormed ?sid, sender = Ai,
                  msg_text = toWellFormed ?reply, timestamp = nowAiMessage env\<rparr>]"
      using turn by simp
    assume "llmService = None
        \<or> (\<exists>llm e. llmService = Some llm \<and> generateReply llm ?history (message d) = Inl e)"
    then have "toWellFormed ?reply = ?reply"
      by (rule fallback)
    then show "msg_text \<lparr>msg_id = toWellFormed (aiMessageId env),
                  conversationId = toWellFormed ?sid, sender = Ai,
                  msg_text = toWellFormed ?reply, timestamp = nowAiMessage env\<rparr> = ?reply"
      by simp
  qed
qed

lemma includes_js_iff: "includes_js s needle \<longleftrightarrow> (\<exists>pre post. s = pre @ needle @ post)"
proof (induction s)
  case Nil
  then show ?case by simp
next
  case (Cons c cs)
  show ?case
  proof
    assume "includes_js (c # cs) needle"
    then consider "prefix needle (c # cs)" | "includes_js cs needle"
      by auto
    then show "\<exists>pre post. c # cs = pre @ needle @ post"
    proof cases
      case 1
      then obtain post where "c # cs = needle @ post"
        by (auto simp: prefix_def)
      then have "c # cs = [] @ needle @ post" by simp
      then show ?thesis by blast
    next
      case 2
      with Cons.IH obtain pre post where "cs = pre @ needle @ post" by blast
      then have "c # cs = (c # pre) @ needle @ post" by simp
      then show ?thesis by blast
    qed
  next
    assume "\<exists>pre post. c # cs = pre @ needle @ post"
    then obtain pre post where eq: "c # cs = pre @ needle @ post" by blast
    show "includes_js (c # cs) needle"
    proof (cases pre)
      case Nil
      with eq have "prefix needle (c # cs)" by (simp add: prefix_def)
      then show ?thesis by simp
    next
      case (Cons p pre')
      with eq have "cs = pre' @ needle @ post" by simp
      with Cons.IH have "includes_js cs needle" by blast
      then show ?thesis by simp
    qed
  qed
qed

lemma messageIncludes_iff:
  "messageIncludes raw needle \<longleftrightarrow> (\<exists>s pre post. raw = Some s \<and> s = pre @ js needle @ post)"
  by (cases raw) (auto simp: messageIncludes_def includes_js_iff)

lemma classifyError_by_content:
  "classifyError raw
     = (if (\<exists>s pre post. raw = Some s \<and> s = pre @ js ''API key'' @ post)
                       \<or> (\<exists>s pre post. raw = Some s \<and> s = pre @ js ''API_KEY'' @ post)
                    then js ''Invalid API key. Please check your Gemini API configuration.''
                    else if (\<exists>s pre post. raw = Some s \<and> s = pre @ js ''quota'' @ post)
                            \<or> (\<exists>s pre post. raw = Some s \<and> s = pre @ js ''rate limit'' @ post)
                    then js ''Rate limit reached. Please try again in a moment.''
                    else if (\<exists>s pre post. raw = Some s \<and> s = pre @ js ''timeout'' @ post)
                    then js ''Request timeout. Please try again.''
                    else js ''Sorry, I encountered an error processing your request. Please try again.'')"
  unfolding classifyError_def messageIncludes_iff ..

lemma generateReply_by_outcome:
  "case generateContent llm (buildConversationContext history userMessage) of
         Returned None \<Rightarrow>
           generateReply llm history userMessage
             = Inl (js ''Sorry, I encountered an error processing your request. Please try again.'')
       | Returned (Some r) \<Rightarrow>
           generateReply llm history userMessage
             = (if trim r = []
                then Inl (js ''Sorry, I encountered an error processing your request. Please try again.'')
                else Inr (trim r))
       | Threw raw \<Rightarrow>
           generateReply llm history userMessage
             = Inl (if (\<exists>s pre post. raw = Some s \<and> s = pre @ js ''API key'' @ post)
                       \<or> (\<exists>s pre post. raw = Some s \<and> s = pre @ js ''API_KEY'' @ post)
                    then js ''Invalid API key. Please check your Gemini API configuration.''
                    else if (\<exists>s pre post. raw = Some s \<and> s = pre @ js ''quota'' @ post)
                            \<or> (\<exists>s pre post. raw = Some s \<and> s = pre @ js ''rate limit'' @ post)
                    then js ''Rate limit reached. Please try again in a moment.''
                    else if (\<exists>s pre post. raw = Some s \<and> s = pre @ js ''timeout'' @ post)
                    then js ''Request timeout. Please try again.''
                    else js ''Sorry, I encountered an error processing your request. Please try again.'')"
proof (cases "generateContent llm (buildConversationContext history userMessage)")
  case (Returned t)
  then show ?thesis
    by (cases t) (simp_all add: generateReply_unfold)
next
  case (Threw raw)
  then show ?thesis
    by (simp only: generateReply_unfold provider_result.case classifyError_by_content)
qed

lemma resolves_or_fails:
  "(\<exists>r. generateReply llm history userMessage = Inr r
         \<and> r \<noteq> [] \<and> \<not> list_all isWhiteSpace r \<and> trim r = r)
    \<or> (\<exists>e. generateReply llm history userMessage = Inl e
         \<and> e = classifyError
                 (case generateContent llm (buildConversationContext history userMessage) of
                    Threw raw \<Rightarrow> raw
                  | Returned t \<Rightarrow> Some (js ''Empty response from LLM''))
         \<and> e \<in> {js ''Invalid API key. Please check your Gemini API configuration.'',
                 js ''Rate limit reached. Please try again in a moment.'',
                 js ''Request timeout. Please try again.'',
                 js ''Sorry, I encountered an error processing your request. Please try again.''})"
proof (cases "generateContent llm (buildConversationContext history userMessage)")
  case (Returned t)
  show ?thesis
  proof (cases "\<exists>r. t = Some r \<and> trim r \<noteq> []")
    case True
    then obtain r where r: "t = Some r" "trim r \<noteq> []" by blast
    then have "generateReply llm history userMessage = Inr (trim r)"
      by (simp add: generateReply_unfold Returned)
    with r(2) show ?thesis
      by (simp add: trim_idem trim_not_all_whitespace)
  next
    case False
    then have "generateReply llm history userMessage = Inl (js ''Sorry, I encountered an error processing your request. Please try again.'')"
      by (cases t) (auto simp: generateReply_unfold Returned)
    then show ?thesis
      by (simp add: Returned classify_empty_completion)
  qed
next
  case (Threw raw)
  then have "generateReply llm history userMessage = Inl (classifyError raw)"
    by (simp add: generateReply_unfold)
  then show ?thesis
    using classifyError_fixed [of raw] by (simp add: Threw)
qed

lemma failure_reaches_user:
  "\<forall>e. generateReply llm (getConversationHistory db sid 10) userMessage = Inl e
          \<longrightarrow> obtainReply (Some llm) db sid userMessage = e
              \<and> e \<in> {js ''Invalid API key. Please check your Gemini API configuration.'',
                      js ''Rate limit reached. Please try again in a moment.'',
                      js ''Request timeout. Please try again.'',
                      js ''Sorry, I encountered an error processing your request. Please try again.''}"
proof (intro allI impI conjI)
  fix e
  assume e: "generateReply llm (getConversationHistory db sid 10) userMessage = Inl e"
  then show "obtainReply (Some llm) db sid userMessage = e"
    by (simp add: obtainReply_unfold)
  from e show "e \<in> {js ''Invalid API key. Please check your Gemini API configuration.'',
                      js ''Rate limit reached. Please try again in a moment.'',
                      js ''Request timeout. Please try again.'',
                      js ''Sorry, I encountered an error processing your request. Please try again.''}"
    using classifyError_fixed
    by (auto simp: generateReply_unfold split: provider_result.splits option.splits if_splits)
qed

text \<open>
  Claim C4. For every history and message, whatever the provider does,
  \<open>generateReply\<close> either resolves to a trimmed string that is neither empty nor
  all white space, or rejects with one of four fixed messages. The message is chosen
  by the content of the error: \<open>Invalid API key ...\<close> when the error message contains
  \<open>API key\<close> or \<open>API_KEY\<close>; otherwise \<open>Rate limit reached ...\<close> when it contains
  \<open>quota\<close> or \<open>rate limit\<close>; otherwise \<open>Request timeout ...\<close> when it contains
  \<open>timeout\<close>; otherwise, also for an error without a message and for an empty
  completion, the generic apology. When \<open>generateReply\<close> rejects, the reply that the
  chat turn hands on is that fixed message.
\<close>

theorem generateReply_resolves_or_fails_safely:
  "((\<exists>r. generateReply llm history userMessage = Inr r
         \<and> r \<noteq> [] \<and> \<not> list_all isWhiteSpace r \<and> trim r = r)
    \<or> (\<exists>e. generateReply llm history userMessage = Inl e
         \<and> e = classifyError
                 (case generateContent llm (buildConversationContext history userMessage) of
                    Threw raw \<Rightarrow> raw
                  | Returned t \<Rightarrow> Some (js ''Empty response from LLM''))
         \<and> e \<in> {js ''Invalid API key. Please check your Gemini API configuration.'',
                 js ''Rate limit reached. Please try again in a moment.'',
                 js ''Request timeout. Please try again.'',
                 js ''Sorry, I encountered an error processing your request. Please try again.''}))
   \<and> (\<forall>e. generateReply llm (getConversationHistory db sid 10) userMessage = Inl e
          \<longrightarrow> obtainReply (Some llm) db sid userMessage = e
              \<and> e \<in> {js ''Invalid API key. Please check your Gemini API configuration.'',
                      js ''Rate limit reached. Please try again in a moment.'',
                      js ''Request timeout. Please try again.'',
                      js ''Sorry, I encountered an error processing your request. Please try again.''})
   \<and> (case generateContent llm (buildConversationContext history userMessage) of
         Returned None \<Rightarrow>
           generateReply llm history userMessage
             = Inl (js ''Sorry, I encountered an error processing your request. Please try again.'')
       | Returned (Some r) \<Rightarrow>
           generateReply llm history userMessage
             = (if trim r = []
                then Inl (js ''Sorry, I encountered an error processing your request. Please try again.'')
                else Inr (trim r))
       | Threw raw \<Rightarrow>
           generateReply llm history userMessage
             = Inl (if (\<exists>s pre post. raw = Some s \<and> s = pre @ js ''API key'' @ post)
                       \<or> (\<exists>s pre post. raw = Some s \<and> s = pre @ js ''API_KEY'' @ post)
                    then js ''Invalid API key. Please check your Gemini API configuration.''
                    else if (\<exists>s pre post. raw = Some s \<and> s = pre @ js ''quota'' @ post)
                            \<or> (\<exists>s pre post. raw = Some s \<and> s = pre @ js ''rate limit'' @ post)
                    then js ''Rate limit reached. Please try again in a moment.''
                    else if (\<exists>s pre post. raw = Some s \<and> s = pre @ js ''timeout'' @ post)
                    then js ''Request timeout. Please try again.''
                    else js ''Sorry, I encountered an error processing your request. Please try again.''))"
  using resolves_or_fails [of llm history userMessage]
    failure_reaches_user [of llm db sid userMessage]
    generateReply_by_outcome [of llm history userMessage]
  by (intro conjI)

lemma postChatMessage_status_200:
  assumes "status (fst (postChatMessage llmService env db reqBody)) = 200"
  shows "\<exists>d. validateRequest ChatMessageRequestSchema reqBody = Success d
           \<and> toWellFormed (userMessageId env) \<notin> set (map msg_id (messages db))
           \<and> toWellFormed (aiMessageId env) \<notin> set (map msg_id (messages db))
           \<and> toWellFormed (aiMessageId env) \<noteq> toWellFormed (userMessageId env)"
proof (cases "validateRequest ChatMessageRequestSchema reqBody")
  case (Failure err)
  then show ?thesis
    using assms by (simp add: postChatMessage_rejected)
next
  case (Success d)
  then show ?thesis
    using assms
    by (auto simp: postChatMessage_accepted Let_def errorHandler_status split: if_splits)
qed

lemma accepted_request_shape:
  assumes "validateRequest ChatMessageRequestSchema reqBody = Success d"
  shows "\<exists>props s. reqBody = Some (JObj props)
           \<and> getProp (JObj props) (js ''message'') = Some (JStr s) \<and> message d = trim s
           \<and> (case getProp (JObj props) (js ''sessionId'') of
                 None \<Rightarrow> sessionId d = None
               | Some x \<Rightarrow> (\<exists>u. x = JStr u \<and> uuidRegex u \<and> sessionId d = Some u))"
  using assms
  unfolding validateRequest_Success_iff ChatMessageRequestSchema_accepts_iff
    messageSchema_accepts_iff sessionIdSchema_accepts_iff
  by blast

text \<open>
  Claim C9, as the code has it. For every chat turn that answers 200, the \<open>messages\<close>
  table has gained exactly a \<open>user\<close> row and an \<open>ai\<close> row under the session id of the
  response. The text of the \<open>user\<close> row is the trimmed inbound message, and the text
  of the \<open>ai\<close> row is the \<open>reply\<close> of the response body, each as the \<open>TEXT\<close> column
  holds it: with every unpaired surrogate replaced by \<open>U+FFFD\<close>. So the stored text
  is the trimmed message, or the reply, itself whenever that string is well-formed
  UTF-16.
\<close>

theorem stored_texts_are_request_and_reply_as_text:
  assumes "status (fst (postChatMessage llmService env db reqBody)) = 200"
  shows "\<exists>props s reply sid u a.
           reqBody = Some (JObj props)
           \<and> getProp (JObj props) (js ''message'') = Some (JStr s)
           \<and> body (fst (postChatMessage llmService env db reqBody)) = ChatMessageResponse reply sid
           \<and> messages (snd (postChatMessage llmService env db reqBody)) = messages db @ [u, a]
           \<and> u = \<lparr>msg_id = toWellFormed (userMessageId env), conversationId = toWellFormed sid,
                   sender = User, msg_text = toWellFormed (trim s),
                   timestamp = nowUserMessage env\<rparr>
           \<and> a = \<lparr>msg_id = toWellFormed (aiMessageId env), conversationId = toWellFormed sid,
                   sender = Ai, msg_text = toWellFormed reply, timestamp = nowAiMessage env\<rparr>
           \<and> (isWellFormed (trim s) \<longrightarrow> msg_text u = trim s)
           \<and> (isWellFormed reply \<longrightarrow> msg_text a = reply)"
proof -
  from assms obtain d where d: "validateRequest ChatMessageRequestSchema reqBody = Success d"
    and fresh: "toWellFormed (userMessageId env) \<notin> set (map msg_id (messages db))"
      "toWellFormed (aiMessageId env) \<notin> set (map msg_id (messages db))"
      "toWellFormed (aiMessageId env) \<noteq> toWellFormed (userMessageId env)"
    using postChatMessage_status_200 by blast
  from d obtain props s where shape: "reqBody = Some (JObj props)"
      "getProp (JObj props) (js ''message'') = Some (JStr s)" "message d = trim s"
    using accepted_request_shape by blast
  let ?sid = "resolveSessionId env (sessionId d)"
  let ?userMsg = "\<lparr>msg_id = toWellFormed (userMessageId env), conversationId = toWellFormed ?sid,
                    sender = User, msg_text = toWellFormed (trim s),
                    timestamp = nowUserMessage env\<rparr>"
  let ?db1 = "if conversationExists db ?sid then db
              else db\<lparr>conversations := conversations db
                       @ [\<lparr>conv_id = toWellFormed ?sid, createdAt = nowConversation env\<rparr>]\<rparr>"
  let ?reply = "obtainReply llmService (?db1\<lparr>messages := messages db @ [?userMsg]\<rparr>) ?sid (message d)"
  let ?aiMsg = "\<lparr>msg_id = toWellFormed (aiMessageId env), conversationId = toWellFormed ?sid,
                  sender = Ai, msg_text = toWellFormed ?reply, timestamp = nowAiMessage env\<rparr>"
  have resp: "body (fst (postChatMessage llmService env db reqBody)) = ChatMessageResponse ?reply ?sid"
    using fresh shape(3) by (simp add: postChatMessage_accepted [OF d] Let_def)
  have rows: "messages (snd (postChatMessage llmService env db reqBody))
                = messages db @ [?userMsg, ?aiMsg]"
    using fresh shape(3) by (simp add: postChatMessage_accepted [OF d] Let_def)
  have user_text: "isWellFormed (trim s) \<longrightarrow> msg_text ?userMsg = trim s"
    by (simp add: toWellFormed_fixed)
  have ai_text: "isWellFormed ?reply \<longrightarrow> msg_text ?aiMsg = ?reply"
    by (simp add: toWellFormed_fixed)
  show ?thesis
    using shape(1,2) resp rows user_text ai_text by blast
qed

text \<open>
  Claim C9 as stated fails: the message \<open>x\<close>, unpaired high surrogate \<open>D83D\<close>, \<open>y\<close> passes
  validation unchanged, the turn answers 200, and the \<open>user\<close> row holds \<open>x\<close>, \<open>U+FFFD\<close>,
  \<open>y\<close>.
\<close>

theorem stored_user_text_differs_counterexample:
  "validateRequest ChatMessageRequestSchema
     (Some (JObj [(js ''message'', JStr [0x78, 0xD83D, 0x79])]))
     = Success \<lparr>message = [0x78, 0xD83D, 0x79], sessionId = None\<rparr>
   \<and> status (fst (postChatMessage None exampleEnv emptyDatabase
         (Some (JObj [(js ''message'', JStr [0x78, 0xD83D, 0x79])])))) = 200
   \<and> map msg_text (messages (snd (postChatMessage None exampleEnv emptyDatabase
         (Some (JObj [(js ''message'', JStr [0x78, 0xD83D, 0x79])])))))
       = [[0x78, 0xFFFD, 0x79], js ''Sorry, the AI service is currently unavailable.'']"
proof -
  have ok: "validateRequest ChatMessageRequestSchema
     (Some (JObj [(js ''message'', JStr [0x78, 0xD83D, 0x79])]))
     = Success \<lparr>message = [0x78, 0xD83D, 0x79], sessionId = None\<rparr>"
    by (simp add: eval_defs)
  have ids: "js ''a1'' \<noteq> js ''u1''"
    by (simp add: js_def)
  have stored: "toWellFormed [0x78, 0xD83D, 0x79] = [0x78, 0xFFFD, 0x79]"
    by (simp add: isHighSurrogate_def isLowSurrogate_def)
  show ?thesis
    using ids
    by (simp add: ok postChatMessage_accepted [OF ok] Let_def obtainReply_def stored
        toWellFormed_js exampleEnv_def emptyDatabase_def isHighSurrogate_def isLowSurrogate_def)
qed

text \<open>
  Claim C10. For every chat turn that answers 200: when the request carries a
  \<open>sessionId\<close>, it is a string of UUID syntax and the response carries the same
  string; the generated UUID is in the response only when the request has no
  \<open>sessionId\<close>.
\<close>

theorem response_echoes_supplied_session:
  assumes "status (fst (postChatMessage llmService env db reqBody)) = 200"
  shows "\<exists>props. reqBody = Some (JObj props)
           \<and> (case getProp (JObj props) (js ''sessionId'') of
                 None \<Rightarrow>
                   sessionIdOf (body (fst (postChatMessage llmService env db reqBody)))
                     = Some (newSessionId env)
               | Some v \<Rightarrow>
                   (\<exists>s. v = JStr s \<and> uuidRegex s
                      \<and> sessionIdOf (body (fst (postChatMessage llmService env db reqBody)))
                          = Some s))"
proof -
  from assms obtain d where d: "validateRequest ChatMessageRequestSchema reqBody = Success d"
    and fresh: "toWellFormed (userMessageId env) \<notin> set (map msg_id (messages db))"
      "toWellFormed (aiMessageId env) \<notin> set (map msg_id (messages db))"
      "toWellFormed (aiMessageId env) \<noteq> toWellFormed (userMessageId env)"
    using postChatMessage_status_200 by blast
  from d obtain props where shape: "reqBody = Some (JObj props)"
      "case getProp (JObj props) (js ''sessionId'') of
         None \<Rightarrow> sessionId d = None
       | Some x \<Rightarrow> (\<exists>u. x = JStr u \<and> uuidRegex u \<and> sessionId d = Some u)"
    using accepted_request_shape by blast
  have resp: "sessionIdOf (body (fst (postChatMessage llmService env db reqBody)))
                = Some (resolveSessionId env (sessionId d))"
    using fresh by (simp add: postChatMessage_accepted [OF d] Let_def)
  show ?thesis
  proof (intro exI conjI)
    show "reqBody = Some (JObj props)" by (rule shape(1))
    show "case getProp (JObj props) (js ''sessionId'') of
            None \<Rightarrow>
              sessionIdOf (body (fst (postChatMessage llmService env db reqBody)))
                = Some (newSessionId env)
          | Some v \<Rightarrow>
              (\<exists>s. v = JStr s \<and> uuidRegex s
                 \<and> sessionIdOf (body (fst (postChatMessage llmService env db reqBody)))
                     = Some s)"
      using shape(2) uuidRegex_nonempty [of "[]"]
      unfolding resp
      by (auto simp: resolveSessionId_def split: option.splits)
  qed
qed

text \<open>
  Claim C8. A \<open>POST /chat/message\<close> whose body carries a \<open>sessionId\<close> that is not a
  string of UUID syntax is answered 400 and leaves the database as it was; a
  \<open>GET /chat/history/:sessionId\<close> whose parameter is not of UUID syntax is answered 400.
\<close>

theorem malformed_session_id_is_400:
  "(getProp (JObj props) (js ''sessionId'') = Some v \<and> (\<forall>u. v = JStr u \<longrightarrow> \<not> uuidRegex u)
      \<longrightarrow> (\<exists>err. postChatMessage llmService env db (Some (JObj props))
                    = (\<lparr>status = 400, body = ErrorResponse err (nowResponse env)\<rparr>, db)))
   \<and> (\<not> uuidRegex param
      \<longrightarrow> getChatHistory env db param
            = \<lparr>status = 400, body = ErrorResponse (js ''Invalid session ID format'') (nowResponse env)\<rparr>)"
proof (intro conjI impI)
  assume a: "getProp (JObj props) (js ''sessionId'') = Some v \<and> (\<forall>u. v = JStr u \<longrightarrow> \<not> uuidRegex u)"
  have "\<forall>d. validateRequest ChatMessageRequestSchema (Some (JObj props)) \<noteq> Success d"
  proof (intro allI notI)
    fix d
    assume "validateRequest ChatMessageRequestSchema (Some (JObj props)) = Success d"
    then obtain props' where "Some (JObj props) = Some (JObj props')"
        "case getProp (JObj props') (js ''sessionId'') of
           None \<Rightarrow> sessionId d = None
         | Some x \<Rightarrow> (\<exists>u. x = JStr u \<and> uuidRegex u \<and> sessionId d = Some u)"
      using accepted_request_shape by blast
    with a show False by auto
  qed
  then obtain err where "validateRequest ChatMessageRequestSchema (Some (JObj props)) = Failure err"
    using validateRequest_cases [of ChatMessageRequestSchema "Some (JObj props)"] by auto
  then show "\<exists>err. postChatMessage llmService env db (Some (JObj props))
                    = (\<lparr>status = 400, body = ErrorResponse err (nowResponse env)\<rparr>, db)"
    using postChatMessage_rejected by blast
next
  assume "\<not> uuidRegex param"
  then show "getChatHistory env db param
            = \<lparr>status = 400, body = ErrorResponse (js ''Invalid session ID format'') (nowResponse env)\<rparr>"
    by (simp add: getChatHistory_def validate_session_param)
qed

lemma accepted_session:
  assumes "validateRequest ChatMessageRequestSchema (Some (JObj props)) = Success d"
    and "getProp (JObj props) (js ''sessionId'') = Some (JStr sid)"
  shows "resolveSessionId env (sessionId d) = sid"
proof -
  from assms(1) obtain props' where "Some (JObj props) = Some (JObj props')"
      "case getProp (JObj props') (js ''sessionId'') of
         None \<Rightarrow> sessionId d = None
       | Some x \<Rightarrow> (\<exists>u. x = JStr u \<and> uuidRegex u \<and> sessionId d = Some u)"
    using accepted_request_shape by blast
  with assms(2) have "sessionId d = Some sid" "uuidRegex sid"
    by auto
  then show ?thesis
    using uuidRegex_nonempty by (simp add: resolveSessionId_def)
qed

lemma turn_conversations:
  assumes "getProp (JObj props) (js ''sessionId'') = Some (JStr sid)" and "uuidRegex sid"
  shows "conversations (snd (postChatMessage llmService env db (Some (JObj props))))
           = (if status (fst (postChatMessage llmService env db (Some (JObj props)))) \<noteq> 400
                 \<and> \<not> conversationExists db sid
              then conversations db @ [\<lparr>conv_id = sid, createdAt = nowConversation env\<rparr>]
              else conversations db)"
proof (cases "validateRequest ChatMessageRequestSchema (Some (JObj props))")
  case (Failure err)
  then show ?thesis
    by (simp add: postChatMessage_rejected)
next
  case (Success d)
  have sid: "resolveSessionId env (sessionId d) = sid"
    using Success assms(1) by (rule accepted_session)
  show ?thesis
    by (simp add: postChatMessage_accepted [OF Success] Let_def sid errorHandler_status
        toWellFormed_uuid [OF assms(2)])
qed

lemma count_conversation_rows:
  assumes "distinct (map conv_id cs)"
  shows "length (filter (\<lambda>c. conv_id c = sid) cs) \<le> 1"
  using assms
proof (induction cs)
  case Nil
  then show ?case by simp
next
  case (Cons c cs)
  show ?case
  proof (cases "conv_id c = sid")
    case True
    with Cons.prems have "filter (\<lambda>c. conv_id c = sid) cs = []"
      by (force simp: filter_empty_conv image_iff)
    with True show ?thesis by simp
  next
    case False
    with Cons show ?thesis by simp
  qed
qed

text \<open>
  Claim C6. Two chat turns, one after the other, whose bodies carry the same valid
  \<open>sessionId\<close>, run from a database whose conversation ids are distinct: afterwards at
  most one conversation row has that id, the two turns together added at most one
  row and none if the conversation existed before, and once the first turn has passed
  validation the second finds the conversation and adds no row.
\<close>

theorem session_creation_is_idempotent:
  assumes "distinct (map conv_id (conversations db))"
    and "getProp (JObj props1) (js ''sessionId'') = Some (JStr sid)"
    and "getProp (JObj props2) (js ''sessionId'') = Some (JStr sid)"
    and "uuidRegex sid"
  shows "let turn1 = postChatMessage llm1 env1 db (Some (JObj props1));
             turn2 = postChatMessage llm2 env2 (snd turn1) (Some (JObj props2))
         in length (filter (\<lambda>c. conv_id c = sid) (conversations (snd turn2))) \<le> 1
            \<and> (\<exists>new. conversations (snd turn2) = conversations db @ new \<and> length new \<le> 1
                  \<and> (conversationExists db sid \<longrightarrow> new = []))
            \<and> (status (fst turn1) \<noteq> 400 \<longrightarrow>
                  conversationExists (snd turn1) sid
                  \<and> conversations (snd turn2) = conversations (snd turn1))"
proof -
  let ?turn1 = "postChatMessage llm1 env1 db (Some (JObj props1))"
  let ?turn2 = "postChatMessage llm2 env2 (snd ?turn1) (Some (JObj props2))"
  have c1: "conversations (snd ?turn1)
              = (if status (fst ?turn1) \<noteq> 400 \<and> \<not> conversationExists db sid
                 then conversations db @ [\<lparr>conv_id = sid, createdAt = nowConversation env1\<rparr>]
                 else conversations db)"
    using assms(2,4) by (rule turn_conversations)
  have c2: "conversations (snd ?turn2)
              = (if status (fst ?turn2) \<noteq> 400 \<and> \<not> conversationExists (snd ?turn1) sid
                 then conversations (snd ?turn1) @ [\<lparr>conv_id = sid, createdAt = nowConversation env2\<rparr>]
                 else conversations (snd ?turn1))"
    using assms(3,4) by (rule turn_conversations)
  have ex1: "status (fst ?turn1) \<noteq> 400 \<Longrightarrow> conversationExists (snd ?turn1) sid"
    by (simp add: conversationExists_iff c1 toWellFormed_uuid [OF assms(4)])
  have reuse: "status (fst ?turn1) \<noteq> 400 \<Longrightarrow> conversations (snd ?turn2) = conversations (snd ?turn1)"
    using ex1 by (simp add: c2)
  have new: "\<exists>new. conversations (snd ?turn2) = conversations db @ new \<and> length new \<le> 1
                  \<and> (conversationExists db sid \<longrightarrow> new = [])"
  proof (cases "status (fst ?turn1) \<noteq> 400")
    case True
    then show ?thesis
      using reuse c1 by auto
  next
    case False
    then have "conversations (snd ?turn1) = conversations db"
      by (simp add: c1)
    moreover from this have "conversationExists (snd ?turn1) sid = conversationExists db sid"
      by (simp add: conversationExists_def)
    ultimately show ?thesis
      using c2 by auto
  qed
  have dist: "distinct (map conv_id (conversations (snd ?turn2)))"
  proof -
    from new obtain new where n: "conversations (snd ?turn2) = conversations db @ new"
        "length new \<le> 1" "conversationExists db sid \<longrightarrow> new = []"
      by blast
    show ?thesis
    proof (cases "new = []")
      case True
      with n assms(1) show ?thesis by simp
    next
      case False
      with n(3) have notin: "sid \<notin> set (map conv_id (conversations db))"
        by (auto simp: conversationExists_iff toWellFormed_uuid [OF assms(4)])
      from False n(2) obtain c where c: "new = [c]"
        by (cases new) auto
      have "conv_id c = sid"
      proof (cases "status (fst ?turn1) \<noteq> 400")
        case True
        with reuse c1 n(1) c show ?thesis by (auto split: if_splits)
      next
        case False
        then have "conversations (snd ?turn1) = conversations db" by (simp add: c1)
        with c2 n(1) c show ?thesis by (auto split: if_splits)
      qed
      with notin assms(1) n(1) c show ?thesis by auto
    qed
  qed
  have "length (filter (\<lambda>c. conv_id c = sid) (conversations (snd ?turn2))) \<le> 1"
    using dist by (rule count_conversation_rows)
  then show ?thesis
    using new ex1 reuse by (simp add: Let_def)
qed

section \<open>The theorems at concrete requests\<close>

lemma exampleSessionId_valid: "uuidRegex exampleSessionId"
  by (simp add: uuidRegex_def exampleSessionId_def js_def isHexDigit_def isVersionDigit_def isVariantDigit_def)

lemma exampleSessionId_text: "toWellFormed exampleSessionId = exampleSessionId"
  using exampleSessionId_valid by (rule toWellFormed_uuid)

lemmas text_defs = toWellFormed_js exampleSessionId_text

lemma example_quota: "classifyError (Some (js ''429: quota exceeded for project''))
   = js ''Rate limit reached. Please try again in a moment.''"
  by (simp add: classifyError_def messageIncludes_def js_def)

theorem history_is_last_n_of_messages_witness:
  "getMessages
     \<lparr>conversations = [\<lparr>conv_id = js ''c'', createdAt = 1\<rparr>],
      messages = [\<lparr>msg_id = js ''m1'', conversationId = js ''c'', sender = User, msg_text = js ''one'', timestamp = 5\<rparr>,
                  \<lparr>msg_id = js ''m2'', conversationId = js ''c'', sender = Ai, msg_text = js ''two'', timestamp = 5\<rparr>,
                  \<lparr>msg_id = js ''m3'', conversationId = js ''c'', sender = User, msg_text = js ''three'', timestamp = 5\<rparr>],
      foreign_keys = True\<rparr> (js ''c'')
     = [\<lparr>msg_id = js ''m1'', conversationId = js ''c'', sender = User, msg_text = js ''one'', timestamp = 5\<rparr>,
        \<lparr>msg_id = js ''m2'', conversationId = js ''c'', sender = Ai, msg_text = js ''two'', timestamp = 5\<rparr>,
        \<lparr>msg_id = js ''m3'', conversationId = js ''c'', sender = User, msg_text = js ''three'', timestamp = 5\<rparr>]
   \<and> getConversationHistory
     \<lparr>conversations = [\<lparr>conv_id = js ''c'', createdAt = 1\<rparr>],
      messages = [\<lparr>msg_id = js ''m1'', conversationId = js ''c'', sender = User, msg_text = js ''one'', timestamp = 5\<rparr>,
                  \<lparr>msg_id = js ''m2'', conversationId = js ''c'', sender = Ai, msg_text = js ''two'', timestamp = 5\<rparr>,
                  \<lparr>msg_id = js ''m3'', conversationId = js ''c'', sender = User, msg_text = js ''three'', timestamp = 5\<rparr>],
      foreign_keys = True\<rparr> (js ''c'') 2
     = [\<lparr>msg_id = js ''m2'', conversationId = js ''c'', sender = Ai, msg_text = js ''two'', timestamp = 5\<rparr>,
        \<lparr>msg_id = js ''m3'', conversationId = js ''c'', sender = User, msg_text = js ''three'', timestamp = 5\<rparr>]"
  using history_is_last_n_of_messages
    [of "\<lparr>conversations = [\<lparr>conv_id = js ''c'', createdAt = 1\<rparr>],
      messages = [\<lparr>msg_id = js ''m1'', conversationId = js ''c'', sender = User, msg_text = js ''one'', timestamp = 5\<rparr>,
                  \<lparr>msg_id = js ''m2'', conversationId = js ''c'', sender = Ai, msg_text = js ''two'', timestamp = 5\<rparr>,
                  \<lparr>msg_id = js ''m3'', conversationId = js ''c'', sender = User, msg_text = js ''three'', timestamp = 5\<rparr>],
      foreign_keys = True\<rparr>" "js ''c''" 2]
  by (simp add: getMessages_def getConversationHistory_def selectByConversation_def
      orderByTimestampAsc_def orderByTimestampDesc_def text_defs)

theorem store_is_append_only_witness:
  "applyOps emptyDatabase [CreateConversation (js ''c'') 1] 
     = \<lparr>conversations = [\<lparr>conv_id = js ''c'', createdAt = 1\<rparr>], messages = [], foreign_keys = True\<rparr>
   \<and> applyOps (applyOps emptyDatabase [CreateConversation (js ''c'') 1])
       [CreateConversation (js ''c'') 2, CreateMessage (js ''m'') (js ''c'') User (js ''hi'') 3,
        GetMessages (js ''c''), CreateMessage (js ''m'') (js ''c'') Ai (js ''again'') 4]
     = \<lparr>conversations = [\<lparr>conv_id = js ''c'', createdAt = 1\<rparr>],
        messages = [\<lparr>msg_id = js ''m'', conversationId = js ''c'', sender = User, msg_text = js ''hi'', timestamp = 3\<rparr>],
        foreign_keys = True\<rparr>"
  using store_is_append_only [of emptyDatabase "[CreateConversation (js ''c'') 1]"
      "[CreateConversation (js ''c'') 2, CreateMessage (js ''m'') (js ''c'') User (js ''hi'') 3,
        GetMessages (js ''c''), CreateMessage (js ''m'') (js ''c'') Ai (js ''again'') 4]"]
  by (simp add: applyOps_def emptyDatabase_def createConversation_def createMessage_def Let_def
      js_def isHighSurrogate_def isLowSurrogate_def)

theorem history_endpoint_valid_uuid_witness:
  "uuidRegex exampleSessionId
   \<and> getChatHistory exampleEnv emptyDatabase exampleSessionId
       = \<lparr>status = 404, body = ErrorResponse (js ''Conversation not found'') 102\<rparr>
   \<and> getChatHistory exampleEnv
        \<lparr>conversations = [\<lparr>conv_id = exampleSessionId, createdAt = 1\<rparr>],
         messages = [\<lparr>msg_id = js ''m2'', conversationId = exampleSessionId, sender = Ai, msg_text = js ''two'', timestamp = 7\<rparr>,
                     \<lparr>msg_id = js ''x'', conversationId = js ''other'', sender = User, msg_text = js ''no'', timestamp = 6\<rparr>,
                     \<lparr>msg_id = js ''m1'', conversationId = exampleSessionId, sender = User, msg_text = js ''one'', timestamp = 5\<rparr>],
         foreign_keys = False\<rparr> exampleSessionId
       = \<lparr>status = 200,
          body = HistoryResponse
                   [\<lparr>msg_id = js ''m1'', conversationId = exampleSessionId, sender = User, msg_text = js ''one'', timestamp = 5\<rparr>,
                    \<lparr>msg_id = js ''m2'', conversationId = exampleSessionId, sender = Ai, msg_text = js ''two'', timestamp = 7\<rparr>]
                   exampleSessionId\<rparr>"
proof -
  have other: "js ''other'' \<noteq> exampleSessionId"
    by (simp add: js_def exampleSessionId_def)
  show ?thesis
    using history_endpoint_valid_uuid [OF exampleSessionId_valid, of emptyDatabase exampleEnv]
      history_endpoint_valid_uuid [OF exampleSessionId_valid,
        of "\<lparr>conversations = [\<lparr>conv_id = exampleSessionId, createdAt = 1\<rparr>],
         messages = [\<lparr>msg_id = js ''m2'', conversationId = exampleSessionId, sender = Ai, msg_text = js ''two'', timestamp = 7\<rparr>,
                     \<lparr>msg_id = js ''x'', conversationId = js ''other'', sender = User, msg_text = js ''no'', timestamp = 6\<rparr>,
                     \<lparr>msg_id = js ''m1'', conversationId = exampleSessionId, sender = User, msg_text = js ''one'', timestamp = 5\<rparr>],
         foreign_keys = False\<rparr>" exampleEnv]
      exampleSessionId_valid other
    by (simp add: getChatHistory_def validate_session_param conversationExists_def getMessages_def
        selectByConversation_def orderByTimestampAsc_def emptyDatabase_def exampleEnv_def text_defs)
qed

theorem generateReply_resolves_or_fails_safely_witness:
  "generateReply \<lparr>generateContent = (\<lambda>prompt. Returned (Some (js ''  Free over $50. '')))\<rparr> [] (js ''shipping?'')
     = Inr (js ''Free over $50.'')
   \<and> generateReply \<lparr>generateContent = (\<lambda>prompt. Returned (Some (js ''   '')))\<rparr> [] (js ''shipping?'')
     = Inl (js ''Sorry, I encountered an error processing your request. Please try again.'')
   \<and> generateReply \<lparr>generateContent = (\<lambda>prompt. Threw (Some (js ''API key not valid'')))\<rparr> [] (js ''shipping?'')
     = Inl (js ''Invalid API key. Please check your Gemini API configuration.'')
   \<and> generateReply \<lparr>generateContent = (\<lambda>prompt. Threw (Some (js ''socket timeout'')))\<rparr> [] (js ''shipping?'')
     = Inl (js ''Request timeout. Please try again.'')
   \<and> generateReply \<lparr>generateContent = (\<lambda>prompt. Threw None)\<rparr> [] (js ''shipping?'')
     = Inl (js ''Sorry, I encountered an error processing your request. Please try again.'')
   \<and> generateReply quotaProvider (getConversationHistory emptyDatabase exampleSessionId 10) (js ''shipping?'')
     = Inl (js ''Rate limit reached. Please try again in a moment.'')
   \<and> obtainReply (Some quotaProvider) emptyDatabase exampleSessionId (js ''shipping?'')
     = js ''Rate limit reached. Please try again in a moment.''"
proof -
  have failing: "generateReply quotaProvider h m = Inl (js ''Rate limit reached. Please try again in a moment.'')" for h m
    by (simp add: generateReply_unfold quotaProvider_def example_quota)
  have resolving: "generateReply \<lparr>generateContent = (\<lambda>prompt. Returned (Some (js ''  Free over $50. '')))\<rparr> [] (js ''shipping?'')
     = Inr (js ''Free over $50.'')"
    by (simp add: generateReply_unfold js_def trim_def isWhiteSpace_def)
  have blank: "generateReply \<lparr>generateContent = (\<lambda>prompt. Returned (Some (js ''   '')))\<rparr> [] (js ''shipping?'')
     = Inl (js ''Sorry, I encountered an error processing your request. Please try again.'')"
    by (simp add: generateReply_unfold js_def trim_def isWhiteSpace_def)
  have credentials: "classifyError (Some (js ''API key not valid''))
     = js ''Invalid API key. Please check your Gemini API configuration.''"
    by (simp add: classifyError_def messageIncludes_def js_def)
  have timeout: "classifyError (Some (js ''socket timeout''))
     = js ''Request timeout. Please try again.''"
    by (simp add: classifyError_def messageIncludes_def js_def)
  have unknown: "classifyError None
     = js ''Sorry, I encountered an error processing your request. Please try again.''"
    by (simp add: classifyError_def messageIncludes_def)
  show ?thesis
    using generateReply_resolves_or_fails_safely
      [of quotaProvider "getConversationHistory emptyDatabase exampleSessionId 10" "js ''shipping?''"
          emptyDatabase exampleSessionId]
      generateReply_resolves_or_fails_safely
      [of "\<lparr>generateContent = (\<lambda>prompt. Threw (Some (js ''socket timeout'')))\<rparr>" "[]" "js ''shipping?''"
          emptyDatabase exampleSessionId]
      failing resolving blank
    by (simp add: generateReply_unfold credentials timeout unknown)
qed

lemma example_body_ok:
  "validateRequest ChatMessageRequestSchema
     (Some (JObj [(js ''message'', JStr (js '' hi '')), (js ''sessionId'', JStr exampleSessionId)]))
   = Success \<lparr>message = js ''hi'', sessionId = Some exampleSessionId\<rparr>"
  using exampleSessionId_valid
  by (simp add: eval_defs)

lemma example_body_without_session_ok:
  "validateRequest ChatMessageRequestSchema (Some (JObj [(js ''message'', JStr (js '' hi ''))]))
   = Success \<lparr>message = js ''hi'', sessionId = None\<rparr>"
  by (simp add: eval_defs)

lemma example_turn:
  "postChatMessage None exampleEnv emptyDatabase
     (Some (JObj [(js ''message'', JStr (js '' hi '')), (js ''sessionId'', JStr exampleSessionId)]))
   = (\<lparr>status = 200,
       body = ChatMessageResponse (js ''Sorry, the AI service is currently unavailable.'') exampleSessionId\<rparr>,
      \<lparr>conversations = [\<lparr>conv_id = exampleSessionId, createdAt = 100\<rparr>],
       messages = [\<lparr>msg_id = js ''u1'', conversationId = exampleSessionId, sender = User,
                    msg_text = js ''hi'', timestamp = 100\<rparr>,
                   \<lparr>msg_id = js ''a1'', conversationId = exampleSessionId, sender = Ai,
                    msg_text = js ''Sorry, the AI service is currently unavailable.'', timestamp = 101\<rparr>],
       foreign_keys = True\<rparr>)"
proof -
  have sid: "resolveSessionId env (Some exampleSessionId) = exampleSessionId" for env
    using uuidRegex_nonempty [OF exampleSessionId_valid] by (simp add: resolveSessionId_def)
  have ids: "js ''a1'' \<noteq> js ''u1''"
    by (simp add: js_def)
  show ?thesis
    using ids
    by (simp add: postChatMessage_accepted [OF example_body_ok] Let_def sid obtainReply_def
        conversationExists_def exampleEnv_def emptyDatabase_def text_defs)
qed

theorem stored_texts_are_request_and_reply_as_text_witness:
  "status (fst (postChatMessage None exampleEnv emptyDatabase
     (Some (JObj [(js ''message'', JStr (js '' hi '')), (js ''sessionId'', JStr exampleSessionId)])))) = 200
   \<and> trim (js '' hi '') = js ''hi''
   \<and> isWellFormed (js ''hi'')
   \<and> isWellFormed (js ''Sorry, the AI service is currently unavailable.'')
   \<and> body (fst (postChatMessage None exampleEnv emptyDatabase
     (Some (JObj [(js ''message'', JStr (js '' hi '')), (js ''sessionId'', JStr exampleSessionId)]))))
       = ChatMessageResponse (js ''Sorry, the AI service is currently unavailable.'') exampleSessionId
   \<and> messages (snd (postChatMessage None exampleEnv emptyDatabase
     (Some (JObj [(js ''message'', JStr (js '' hi '')), (js ''sessionId'', JStr exampleSessionId)]))))
       = [\<lparr>msg_id = js ''u1'', conversationId = exampleSessionId, sender = User,
           msg_text = js ''hi'', timestamp = 100\<rparr>,
          \<lparr>msg_id = js ''a1'', conversationId = exampleSessionId, sender = Ai,
           msg_text = js ''Sorry, the AI service is currently unavailable.'', timestamp = 101\<rparr>]"
proof -
  have st: "status (fst (postChatMessage None exampleEnv emptyDatabase
     (Some (JObj [(js ''message'', JStr (js '' hi '')), (js ''sessionId'', JStr exampleSessionId)])))) = 200"
    by (simp add: example_turn)
  have tr: "trim (js '' hi '') = js ''hi''"
    by (simp add: js_def trim_def isWhiteSpace_def)
  show ?thesis
    using stored_texts_are_request_and_reply_as_text [OF st] st tr js_wellFormed
    by (simp add: example_turn)
qed

theorem response_echoes_supplied_session_witness:
  "status (fst (postChatMessage None exampleEnv emptyDatabase
     (Some (JObj [(js ''message'', JStr (js '' hi '')), (js ''sessionId'', JStr exampleSessionId)])))) = 200
   \<and> sessionIdOf (body (fst (postChatMessage None exampleEnv emptyDatabase
     (Some (JObj [(js ''message'', JStr (js '' hi '')), (js ''sessionId'', JStr exampleSessionId)])))))
       = Some exampleSessionId"
proof -
  have st: "status (fst (postChatMessage None exampleEnv emptyDatabase
     (Some (JObj [(js ''message'', JStr (js '' hi '')), (js ''sessionId'', JStr exampleSessionId)])))) = 200"
    by (simp add: example_turn)
  show ?thesis
    using response_echoes_supplied_session [OF st] st
    by (simp add: example_turn)
qed

theorem malformed_session_id_is_400_witness:
  "\<not> uuidRegex (js ''not-a-uuid'')
   \<and> postChatMessage None exampleEnv emptyDatabase
       (Some (JObj [(js ''message'', JStr (js ''hi'')), (js ''sessionId'', JStr (js ''not-a-uuid''))]))
     = (\<lparr>status = 400, body = ErrorResponse (js ''Invalid session ID format'') 102\<rparr>, emptyDatabase)
   \<and> getChatHistory exampleEnv emptyDatabase (js ''not-a-uuid'')
     = \<lparr>status = 400, body = ErrorResponse (js ''Invalid session ID format'') 102\<rparr>"
proof -
  have bad: "\<not> uuidRegex (js ''not-a-uuid'')"
    by (simp add: uuidRegex_def js_def)
  have rejected: "validateRequest ChatMessageRequestSchema
       (Some (JObj [(js ''message'', JStr (js ''hi'')), (js ''sessionId'', JStr (js ''not-a-uuid''))]))
     = Failure (js ''Invalid session ID format'')"
    using bad by (simp add: eval_defs)
  show ?thesis
    using malformed_session_id_is_400
      [of "[(js ''message'', JStr (js ''hi'')), (js ''sessionId'', JStr (js ''not-a-uuid''))]"
          "JStr (js ''not-a-uuid'')" None exampleEnv emptyDatabase "js ''not-a-uuid''"]
      bad
    by (simp add: postChatMessage_rejected [OF rejected] exampleEnv_def)
qed

theorem session_creation_is_idempotent_witness:
  "distinct (map conv_id (conversations emptyDatabase))
   \<and> getProp (JObj [(js ''message'', JStr (js '' hi '')), (js ''sessionId'', JStr exampleSessionId)])
         (js ''sessionId'') = Some (JStr exampleSessionId)
   \<and> uuidRegex exampleSessionId
   \<and> conversations (snd (postChatMessage None exampleEnv emptyDatabase
         (Some (JObj [(js ''message'', JStr (js '' hi '')), (js ''sessionId'', JStr exampleSessionId)]))))
       = [\<lparr>conv_id = exampleSessionId, createdAt = 100\<rparr>]
   \<and> conversations (snd (postChatMessage None
         (exampleEnv\<lparr>userMessageId := js ''u2'', aiMessageId := js ''a2'', nowConversation := 200\<rparr>)
         (snd (postChatMessage None exampleEnv emptyDatabase
            (Some (JObj [(js ''message'', JStr (js '' hi '')), (js ''sessionId'', JStr exampleSessionId)]))))
         (Some (JObj [(js ''message'', JStr (js '' hi '')), (js ''sessionId'', JStr exampleSessionId)]))))
       = [\<lparr>conv_id = exampleSessionId, createdAt = 100\<rparr>]"
proof -
  have d: "distinct (map conv_id (conversations emptyDatabase))"
    by (simp add: emptyDatabase_def)
  have p: "getProp (JObj [(js ''message'', JStr (js '' hi '')), (js ''sessionId'', JStr exampleSessionId)])
         (js ''sessionId'') = Some (JStr exampleSessionId)"
    by (simp add: getProp_def js_def)
  have st: "status (fst (postChatMessage None exampleEnv emptyDatabase
         (Some (JObj [(js ''message'', JStr (js '' hi '')), (js ''sessionId'', JStr exampleSessionId)])))) \<noteq> 400"
    by (simp add: example_turn)
  show ?thesis
    using session_creation_is_idempotent [OF d p p exampleSessionId_valid, of None exampleEnv None
        "exampleEnv\<lparr>userMessageId := js ''u2'', aiMessageId := js ''a2'', nowConversation := 200\<rparr>"]
      d p exampleSessionId_valid st
    by (simp add: Let_def example_turn)
qed

lemma quota_reply:
  "generateReply quotaProvider h m = Inl (js ''Rate limit reached. Please try again in a moment.'')"
  by (simp add: generateReply_unfold quotaProvider_def example_quota)

theorem turn_completes_after_user_message_witness:
  "validateRequest ChatMessageRequestSchema (Some (JObj [(js ''message'', JStr (js '' hi ''))]))
     = Success \<lparr>message = js ''hi'', sessionId = None\<rparr>
   \<and> toWellFormed (userMessageId exampleEnv) \<notin> set (map msg_id (messages emptyDatabase))
   \<and> toWellFormed (aiMessageId exampleEnv) \<notin> set (map msg_id (messages emptyDatabase))
   \<and> toWellFormed (aiMessageId exampleEnv) \<noteq> toWellFormed (userMessageId exampleEnv)
   \<and> fst (postChatMessage (Some quotaProvider) exampleEnv emptyDatabase
            (Some (JObj [(js ''message'', JStr (js '' hi ''))])))
       = \<lparr>status = 200,
          body = ChatMessageResponse (js ''Rate limit reached. Please try again in a moment.'')
                   (newSessionId exampleEnv)\<rparr>
   \<and> messages (snd (postChatMessage (Some quotaProvider) exampleEnv emptyDatabase
            (Some (JObj [(js ''message'', JStr (js '' hi ''))]))))
       = [\<lparr>msg_id = js ''u1'', conversationId = newSessionId exampleEnv, sender = User,
           msg_text = js ''hi'', timestamp = 100\<rparr>,
          \<lparr>msg_id = js ''a1'', conversationId = newSessionId exampleEnv, sender = Ai,
           msg_text = js ''Rate limit reached. Please try again in a moment.'', timestamp = 101\<rparr>]"
proof -
  have fresh: "toWellFormed (userMessageId exampleEnv) \<notin> set (map msg_id (messages emptyDatabase))"
      "toWellFormed (aiMessageId exampleEnv) \<notin> set (map msg_id (messages emptyDatabase))"
      "toWellFormed (aiMessageId exampleEnv) \<noteq> toWellFormed (userMessageId exampleEnv)"
    by (simp_all add: exampleEnv_def emptyDatabase_def js_def isHighSurrogate_def isLowSurrogate_def)
  show ?thesis
    using turn_completes_after_user_message
        [OF example_body_without_session_ok fresh, of "Some quotaProvider"]
      example_body_without_session_ok fresh
    by (simp add: Let_def quota_reply resolveSessionId_def exampleEnv_def emptyDatabase_def text_defs)
qed

end
